theory Spec2Isabelle
  imports Complex_Main "HOL-Library.Sublist"
begin

section \<open>Emotion detection and playlist lookup of the music recommendation service\<close>

text \<open>
  A shallow embedding of \<^verbatim>\<open>app.py\<close>: the route handler \<^verbatim>\<open>detect_emotion\<close>,
  the table \<^verbatim>\<open>emotion_to_mood\<close> and \<^verbatim>\<open>get_spotify_playlists\<close>.

  Python strings are sequences of Unicode code points, so a string is a list of code
  points here (a \<open>char\<close> of HOL is a byte and cannot hold a Devanagari letter).
  Confidences are Python floats; they are modelled as real numbers, so rounding and
  NaN are outside the model. The collaborators that the handler calls (DeepFace with
  the image decoding in front of it, \<^verbatim>\<open>text2emotion\<close>, the Spotify client) and
  \<^verbatim>\<open>str.lower\<close>, whose Unicode tables are not part of the program, are parameters
  collected in an environment record: what is proved holds for each of their behaviours.
\<close>

subsection \<open>Strings\<close>

type_synonym ustr = "nat list"

text \<open>An ASCII literal as a string of code points.\<close>

definition u :: "string \<Rightarrow> ustr" where
  "u s = map of_char s"

text \<open>
  The code points that \<^verbatim>\<open>str.strip()\<close> removes: those for which CPython's
  \<^verbatim>\<open>str.isspace\<close> holds.
\<close>

definition py_isspace :: "nat \<Rightarrow> bool" where
  "py_isspace c =
     ((0x09 \<le> c \<and> c \<le> 0x0D) \<or> (0x1C \<le> c \<and> c \<le> 0x20) \<or> c = 0x85 \<or> c = 0xA0
      \<or> c = 0x1680 \<or> (0x2000 \<le> c \<and> c \<le> 0x200A) \<or> c = 0x2028 \<or> c = 0x2029
      \<or> c = 0x202F \<or> c = 0x205F \<or> c = 0x3000)"

definition strip :: "ustr \<Rightarrow> ustr" where
  "strip s = rev (dropWhile py_isspace (rev (dropWhile py_isspace s)))"

text \<open>\<^verbatim>\<open>keyword in text\<close>: the keyword occurs as a contiguous run of the text.\<close>

fun py_in :: "ustr \<Rightarrow> ustr \<Rightarrow> bool" where
  "py_in keyword [] = (keyword = [])"
| "py_in keyword (c # cs) = (prefix keyword (c # cs) \<or> py_in keyword cs)"

text \<open>
  \<^verbatim>\<open>re.search\<close> with the character class from U+0900 to U+097F (the Devanagari block)
  finds a match in the text.
\<close>

definition has_devanagari :: "ustr \<Rightarrow> bool" where
  "has_devanagari text = list_ex (\<lambda>c. 0x0900 \<le> c \<and> c \<le> 0x097F) text"

text \<open>A string is truthy when it is neither \<^verbatim>\<open>None\<close> nor empty.\<close>

definition truthy :: "ustr option \<Rightarrow> bool" where
  "truthy s = (case s of None \<Rightarrow> False | Some t \<Rightarrow> t \<noteq> [])"

subsection \<open>Dictionaries and exceptions\<close>

datatype py_exception = UnboundLocalError | KeyError | ValueError | IndexError | CollaboratorError

text \<open>
  A dict is the list of its items in iteration order. \<^verbatim>\<open>max(d, key=d.get)\<close>
  walks the items and keeps the first one whose value no later value exceeds.
\<close>

fun max_from :: "'k \<times> 'v::linorder \<Rightarrow> ('k \<times> 'v) list \<Rightarrow> 'k \<times> 'v" where
  "max_from best [] = best"
| "max_from best (item # items) = max_from (if snd best < snd item then item else best) items"

definition py_max_key :: "('k \<times> 'v::linorder) list \<Rightarrow> py_exception + 'k" where
  "py_max_key d = (case d of [] \<Rightarrow> Inl ValueError | item # items \<Rightarrow> Inr (fst (max_from item items)))"

definition getitem :: "('k \<times> 'v) list \<Rightarrow> 'k \<Rightarrow> py_exception + 'v" where
  "getitem d k = (case map_of d k of None \<Rightarrow> Inl KeyError | Some v \<Rightarrow> Inr v)"

definition dict_get :: "('k \<times> 'v) list \<Rightarrow> 'k \<Rightarrow> 'v \<Rightarrow> 'v" where
  "dict_get d k dflt = (case map_of d k of None \<Rightarrow> dflt | Some v \<Rightarrow> v)"

text \<open>\<^verbatim>\<open>k = max(d, key=d.get)\<close> followed by \<^verbatim>\<open>d[k]\<close>.\<close>

definition max_entry :: "('k \<times> 'v::linorder) list \<Rightarrow> py_exception + ('k \<times> 'v)" where
  "max_entry d =
     (case py_max_key d of
        Inl e \<Rightarrow> Inl e
      | Inr k \<Rightarrow> (case getitem d k of Inl e \<Rightarrow> Inl e | Inr v \<Rightarrow> Inr (k, v)))"

text \<open>\<^verbatim>\<open>max(d.values())\<close> of a dict that is not empty.\<close>

fun max_value :: "'v::linorder \<Rightarrow> 'v list \<Rightarrow> 'v" where
  "max_value best [] = best"
| "max_value best (v # vs) = max_value (if best < v then v else best) vs"

subsection \<open>The emotion to mood table\<close>

definition emotion_to_mood :: "(ustr \<times> ustr) list" where
  "emotion_to_mood = [
    (u ''happy'', u ''happy''),
    (u ''sad'', u ''sad''),
    (u ''angry'', u ''energetic''),
    (u ''fear'', u ''calm''),
    (u ''surprise'', u ''excited''),
    (u ''neutral'', u ''chill''),
    (u ''disgust'', u ''dark''),
    (u ''joy'', u ''happy''),
    (u ''anticipation'', u ''excited''),
    (u ''trust'', u ''calm''),
    (u ''positive'', u ''happy''),
    (u ''negative'', u ''sad''),
    (u ''worry'', u ''calm''),
    (u ''love'', u ''romantic'')]"

text \<open>\<^verbatim>\<open>emotion_to_mood.get(emotion_lower, 'chill')\<close>\<close>

definition mood_of :: "ustr \<Rightarrow> ustr" where
  "mood_of emotion_lower = dict_get emotion_to_mood emotion_lower (u ''chill'')"

subsection \<open>Keyword scoring\<close>

text \<open>
  The table \<^verbatim>\<open>emotion_keywords\<close> of the handler, in its order. Each label has one list,
  which holds its English keywords followed by its Hindi keywords; the Hindi ones are
  written as their code points.
\<close>

definition emotion_keywords :: "(ustr \<times> ustr list) list" where
  "emotion_keywords = [
    (u ''happy'',
     [u ''happy'', u ''joy'', u ''excited'', u ''great'', u ''wonderful'', u ''amazing'',
      u ''fantastic'', u ''love'', u ''glad'', u ''cheerful'', u ''delighted'', u ''thrilled'',
      u ''excellent'', u ''good'', u ''awesome'', u ''perfect'', [0x916, 0x941, 0x936],
      [0x916, 0x941, 0x936, 0x940], [0x916, 0x941, 0x936, 0x020, 0x939, 0x942, 0x901],
      [0x92E, 0x91C, 0x93C, 0x93E], [0x909, 0x924, 0x94D, 0x938, 0x93E, 0x939, 0x93F, 0x924]]),
    (u ''sad'',
     [u ''sad'', u ''unhappy'', u ''depressed'', u ''lonely'', u ''miserable'', u ''down'',
      u ''blue'', u ''disappointed'', u ''upset'', u ''hurt'', u ''heartbroken'', u ''crying'',
      u ''tears'', u ''awful'', u ''terrible'', u ''bad'', [0x909, 0x926, 0x93E, 0x938],
      [0x926, 0x941, 0x916], [0x91F, 0x942, 0x91F], [0x926, 0x941, 0x916, 0x940]]),
    (u ''angry'',
     [u ''angry'', u ''mad'', u ''furious'', u ''irritated'', u ''annoyed'', u ''frustrated'',
      u ''rage'', u ''pissed'', u ''hate'', u ''disgusted'', u ''outraged'',
      [0x917, 0x941, 0x938, 0x94D, 0x938, 0x93E],
      [0x915, 0x94D, 0x930, 0x94B, 0x927, 0x93F, 0x924],
      [0x928, 0x93E, 0x930, 0x93E, 0x91C, 0x93C]]),
    (u ''fear'',
     [u ''scared'', u ''afraid'', u ''fear'', u ''anxious'', u ''worried'', u ''nervous'',
      u ''terrified'', u ''frightened'', u ''panic'', [0x921, 0x930],
      [0x918, 0x92C, 0x930, 0x93E, 0x939, 0x91F], [0x921, 0x930, 0x93E]]),
    (u ''surprise'',
     [u ''surprised'', u ''shocked'', u ''amazed'', u ''astonished'', u ''wow'',
      u ''incredible'', u ''unbelievable'', [0x939, 0x948, 0x930, 0x93E, 0x928],
      [0x91A, 0x915, 0x93F, 0x924]]),
    (u ''neutral'',
     [u ''okay'', u ''fine'', u ''alright'', u ''normal'', u ''meh'', u ''whatever'',
      [0x920, 0x940, 0x915], [0x905, 0x91A, 0x94D, 0x91B, 0x93E],
      [0x938, 0x93E, 0x92E, 0x93E, 0x928, 0x94D, 0x92F]])]"

text \<open>
  The loop that fills \<^verbatim>\<open>emotion_scores\<close>: the score of a label is the number of its
  keywords that occur in the text, and a label is entered only with a positive score.
  The table is an argument so that the loop can be compared on other tables.
\<close>

definition keyword_score :: "ustr list \<Rightarrow> ustr \<Rightarrow> nat" where
  "keyword_score keywords text = length (filter (\<lambda>keyword. py_in keyword text) keywords)"

definition score_table :: "(ustr \<times> ustr list) list \<Rightarrow> ustr \<Rightarrow> (ustr \<times> nat) list" where
  "score_table table text =
     filter (\<lambda>entry. snd entry > 0)
       (map (\<lambda>entry. (fst entry, keyword_score (snd entry) text)) table)"

definition emotion_scores :: "ustr \<Rightarrow> (ustr \<times> nat) list" where
  "emotion_scores text = score_table emotion_keywords text"

subsection \<open>Static playlists\<close>

record playlist =
  pl_name :: ustr
  pl_url :: ustr
  pl_image :: "ustr option"

definition sample_playlists_hi :: "(ustr \<times> playlist list) list" where
  "sample_playlists_hi = [
    (u ''happy'',
     [
      \<lparr>pl_name = u ''Bollywood Happy Hits'',
       pl_url = u ''https://open.spotify.com/playlist/37i9dQZF1DX2taZN6Kf4K1'',
       pl_image = Some (u ''https://via.placeholder.com/300x300/FFD700/000000?text=Bollywood+Happy'')\<rparr>,
      \<lparr>pl_name = u ''Top Bollywood'',
       pl_url = u ''https://open.spotify.com/playlist/37i9dQZF1DXcZ6X5YK6xG6'',
       pl_image = Some (u ''https://via.placeholder.com/300x300/FF6B9D/000000?text=Top+Bollywood'')\<rparr>,
      \<lparr>pl_name = u ''Bollywood Retro'',
       pl_url = u ''https://open.spotify.com/playlist/37i9dQZF1DX2yvmlOdMYzV'',
       pl_image = Some (u ''https://via.placeholder.com/300x300/00D4FF/000000?text=Bollywood+Retro'')\<rparr>]),
    (u ''sad'',
     [
      \<lparr>pl_name = u ''Bollywood Sad'',
       pl_url = u ''https://open.spotify.com/playlist/37i9dQZF1DWSf2RDTDayIx'',
       pl_image = Some (u ''https://via.placeholder.com/300x300/4169E1/FFFFFF?text=Bollywood+Sad'')\<rparr>,
      \<lparr>pl_name = u ''Sad Bollywood'',
       pl_url = u ''https://open.spotify.com/playlist/37i9dQZF1DX7qK8ma5wgG1'',
       pl_image = Some (u ''https://via.placeholder.com/300x300/708090/FFFFFF?text=Sad+Bollywood'')\<rparr>,
      \<lparr>pl_name = u ''Melancholic Bollywood'',
       pl_url = u ''https://open.spotify.com/playlist/37i9dQZF1DWX83CujKHHOn'',
       pl_image = Some (u ''https://via.placeholder.com/300x300/2F4F4F/FFFFFF?text=Melancholy+Bollywood'')\<rparr>]),
    (u ''chill'',
     [
      \<lparr>pl_name = u ''Bollywood Mellow'',
       pl_url = u ''https://open.spotify.com/playlist/37i9dQZF1DX889U0CL85jj'',
       pl_image = Some (u ''https://via.placeholder.com/300x300/9370DB/000000?text=Bollywood+Chill'')\<rparr>,
      \<lparr>pl_name = u ''Indie Hindi Chill'',
       pl_url = u ''https://open.spotify.com/playlist/37i9dQZF1DWWQRwui0ExPn'',
       pl_image = Some (u ''https://via.placeholder.com/300x300/BA55D3/000000?text=Indie+Hindi'')\<rparr>,
      \<lparr>pl_name = u ''Romantic Bollywood'',
       pl_url = u ''https://open.spotify.com/playlist/37i9dQZF1DX50QitC6Oqtn'',
       pl_image = Some (u ''https://via.placeholder.com/300x300/FF1493/FFFFFF?text=Romantic+Bollywood'')\<rparr>])]"

definition sample_playlists :: "(ustr \<times> playlist list) list" where
  "sample_playlists = [
    (u ''happy'',
     [
      \<lparr>pl_name = u ''Happy Hits'',
       pl_url = u ''https://open.spotify.com/playlist/37i9dQZF1DXdPec7aLTmlC'',
       pl_image = Some (u ''https://via.placeholder.com/300x300/FFD700/000000?text=Happy+Hits'')\<rparr>,
      \<lparr>pl_name = u ''Feel Good Indie'',
       pl_url = u ''https://open.spotify.com/playlist/37i9dQZF1DX2sUQwD7tbmL'',
       pl_image = Some (u ''https://via.placeholder.com/300x300/FF6B9D/000000?text=Feel+Good'')\<rparr>,
      \<lparr>pl_name = u ''Mood Booster'',
       pl_url = u ''https://open.spotify.com/playlist/37i9dQZF1DX3rxVfibe1L0'',
       pl_image = Some (u ''https://via.placeholder.com/300x300/00D4FF/000000?text=Mood+Booster'')\<rparr>]),
    (u ''sad'',
     [
      \<lparr>pl_name = u ''Life Sucks'',
       pl_url = u ''https://open.spotify.com/playlist/37i9dQZF1DX7qK8ma5wgG1'',
       pl_image = Some (u ''https://via.placeholder.com/300x300/4169E1/FFFFFF?text=Sad+Songs'')\<rparr>,
      \<lparr>pl_name = u ''Sad Indie'',
       pl_url = u ''https://open.spotify.com/playlist/37i9dQZF1DX59NCqCqJtoH'',
       pl_image = Some (u ''https://via.placeholder.com/300x300/708090/FFFFFF?text=Sad+Indie'')\<rparr>,
      \<lparr>pl_name = u ''Melancholy'',
       pl_url = u ''https://open.spotify.com/playlist/37i9dQZF1DWX83CujKHHOn'',
       pl_image = Some (u ''https://via.placeholder.com/300x300/2F4F4F/FFFFFF?text=Melancholy'')\<rparr>]),
    (u ''energetic'',
     [
      \<lparr>pl_name = u ''Beast Mode'',
       pl_url = u ''https://open.spotify.com/playlist/37i9dQZF1DX76Wlfdnj7AP'',
       pl_image = Some (u ''https://via.placeholder.com/300x300/FF4500/000000?text=Beast+Mode'')\<rparr>,
      \<lparr>pl_name = u ''Power Workout'',
       pl_url = u ''https://open.spotify.com/playlist/37i9dQZF1DX70RN3TfWWJh'',
       pl_image = Some (u ''https://via.placeholder.com/300x300/DC143C/000000?text=Power+Workout'')\<rparr>,
      \<lparr>pl_name = u ''Adrenaline'',
       pl_url = u ''https://open.spotify.com/playlist/37i9dQZF1DX0pH2SQMRXnC'',
       pl_image = Some (u ''https://via.placeholder.com/300x300/8B0000/FFFFFF?text=Adrenaline'')\<rparr>]),
    (u ''calm'',
     [
      \<lparr>pl_name = u ''Peaceful Piano'',
       pl_url = u ''https://open.spotify.com/playlist/37i9dQZF1DX4sWSpwq3LiO'',
       pl_image = Some (u ''https://via.placeholder.com/300x300/87CEEB/000000?text=Peaceful+Piano'')\<rparr>,
      \<lparr>pl_name = u ''Calm Vibes'',
       pl_url = u ''https://open.spotify.com/playlist/37i9dQZF1DWU0ScTcjJBdj'',
       pl_image = Some (u ''https://via.placeholder.com/300x300/ADD8E6/000000?text=Calm+Vibes'')\<rparr>,
      \<lparr>pl_name = u ''Relaxing Sounds'',
       pl_url = u ''https://open.spotify.com/playlist/37i9dQZF1DWZd79rJ6a7lp'',
       pl_image = Some (u ''https://via.placeholder.com/300x300/B0E0E6/000000?text=Relaxing'')\<rparr>]),
    (u ''excited'',
     [
      \<lparr>pl_name = u ''Party Time'',
       pl_url = u ''https://open.spotify.com/playlist/37i9dQZF1DXaXB8fQg7xif'',
       pl_image = Some (u ''https://via.placeholder.com/300x300/FF1493/000000?text=Party+Time'')\<rparr>,
      \<lparr>pl_name = u ''Dance Party'',
       pl_url = u ''https://open.spotify.com/playlist/37i9dQZF1DX4dyzvuaRJ0n'',
       pl_image = Some (u ''https://via.placeholder.com/300x300/FF69B4/000000?text=Dance+Party'')\<rparr>,
      \<lparr>pl_name = u ''Energy Boost'',
       pl_url = u ''https://open.spotify.com/playlist/37i9dQZF1DX3Sp0P28SIer'',
       pl_image = Some (u ''https://via.placeholder.com/300x300/FFB6C1/000000?text=Energy+Boost'')\<rparr>]),
    (u ''chill'',
     [
      \<lparr>pl_name = u ''Chill Hits'',
       pl_url = u ''https://open.spotify.com/playlist/37i9dQZF1DX4WYpdgoIcn6'',
       pl_image = Some (u ''https://via.placeholder.com/300x300/9370DB/000000?text=Chill+Hits'')\<rparr>,
      \<lparr>pl_name = u ''Lofi Beats'',
       pl_url = u ''https://open.spotify.com/playlist/37i9dQZF1DWWQRwui0ExPn'',
       pl_image = Some (u ''https://via.placeholder.com/300x300/BA55D3/000000?text=Lofi+Beats'')\<rparr>,
      \<lparr>pl_name = u ''Chill Vibes'',
       pl_url = u ''https://open.spotify.com/playlist/37i9dQZF1DX889U0CL85jj'',
       pl_image = Some (u ''https://via.placeholder.com/300x300/DDA0DD/000000?text=Chill+Vibes'')\<rparr>]),
    (u ''romantic'',
     [
      \<lparr>pl_name = u ''Romantic'',
       pl_url = u ''https://open.spotify.com/playlist/37i9dQZF1DX50QitC6Oqtn'',
       pl_image = Some (u ''https://via.placeholder.com/300x300/FF1493/FFFFFF?text=Romantic'')\<rparr>,
      \<lparr>pl_name = u ''Love Songs'',
       pl_url = u ''https://open.spotify.com/playlist/37i9dQZF1DX0UrRvztWcAU'',
       pl_image = Some (u ''https://via.placeholder.com/300x300/FF69B4/FFFFFF?text=Love+Songs'')\<rparr>,
      \<lparr>pl_name = u ''Date Night'',
       pl_url = u ''https://open.spotify.com/playlist/37i9dQZF1DX4OzrY981I1W'',
       pl_image = Some (u ''https://via.placeholder.com/300x300/FFB6C1/000000?text=Date+Night'')\<rparr>]),
    (u ''dark'',
     [
      \<lparr>pl_name = u ''Dark & Stormy'',
       pl_url = u ''https://open.spotify.com/playlist/37i9dQZF1DX0XUfTFmNBRM'',
       pl_image = Some (u ''https://via.placeholder.com/300x300/2F4F4F/FFFFFF?text=Dark'')\<rparr>,
      \<lparr>pl_name = u ''Metal'',
       pl_url = u ''https://open.spotify.com/playlist/37i9dQZF1DWWOaP4H0w5b0'',
       pl_image = Some (u ''https://via.placeholder.com/300x300/000000/FFFFFF?text=Metal'')\<rparr>,
      \<lparr>pl_name = u ''Rock Hard'',
       pl_url = u ''https://open.spotify.com/playlist/37i9dQZF1DWXRqgorJj26U'',
       pl_image = Some (u ''https://via.placeholder.com/300x300/1C1C1C/FFFFFF?text=Rock+Hard'')\<rparr>])]"

text \<open>The queries of the online mode.\<close>

definition search_queries :: "(ustr \<times> ustr list) list" where
  "search_queries = [
    (u ''happy'', [u ''happy'', u ''feel good'', u ''uplifting'']),
    (u ''sad'', [u ''sad'', u ''melancholy'', u ''emotional'']),
    (u ''energetic'', [u ''workout'', u ''energetic'', u ''power'']),
    (u ''calm'', [u ''calm'', u ''peaceful'', u ''relaxing'']),
    (u ''excited'', [u ''party'', u ''dance'', u ''upbeat'']),
    (u ''chill'', [u ''chill'', u ''lofi'', u ''relax'']),
    (u ''romantic'', [u ''romantic'', u ''love songs'', u ''date night'']),
    (u ''dark'', [u ''dark'', u ''intense'', u ''heavy''])]"

subsection \<open>Collaborators\<close>

text \<open>
  What the image part of the handler can get from its collaborators: the import of
  DeepFace fails; something inside the \<^verbatim>\<open>try\<close> raises (the base64 decoding, the
  analysis, \<^verbatim>\<open>result[0]\<close>); OpenCV returns no image; or the analysis returns a result,
  which is a dict with its \<^verbatim>\<open>emotion\<close> and \<^verbatim>\<open>dominant_emotion\<close> entries, or is not a dict.
\<close>

datatype deepface_result =
  NotADict
| ResultDict "(ustr \<times> real) list option" "ustr option"

datatype vision_outcome =
  DeepFaceMissing
| AnalysisRaised
| ImageNotDecoded
| Analyzed deepface_result

text \<open>An item of the search result of the Spotify client.\<close>

record search_item =
  item_name :: ustr
  item_spotify_url :: ustr
  item_images :: "ustr list"

record env =
  str_lower :: "ustr \<Rightarrow> ustr"
  analyze_image :: "ustr \<Rightarrow> vision_outcome"
  te_get_emotion :: "ustr \<Rightarrow> py_exception + (ustr \<times> real) list"
  sp :: "(ustr \<Rightarrow> py_exception + search_item list) option"

subsection \<open>Requests and responses\<close>

text \<open>
  The parsed JSON body, taken to be an object whose \<^verbatim>\<open>image\<close> and \<^verbatim>\<open>text\<close> entries,
  when present, are strings (a body of another shape makes the handler raise before it
  looks at either). The body \<^verbatim>\<open>{}\<close> has neither entry.
\<close>

record request =
  req_image :: "ustr option"
  req_text :: "ustr option"

record payload =
  r_emotion :: ustr
  r_mood :: ustr
  r_language :: ustr
  r_playlists :: "playlist list"
  r_method :: "ustr option"
  r_confidence :: real
  r_facial_emotion :: "ustr option"
  r_facial_confidence :: real
  r_text_emotion :: "ustr option"
  r_text_confidence :: real

text \<open>
  A response is the JSON payload with status 200, an error message with status 400, or
  the status 500 that Flask answers when the handler raises.
\<close>

datatype response = Ok200 payload | Err400 string | Err500 py_exception

definition msg_text :: string where
  "msg_text = ''Could not detect emotion from text. Please provide more descriptive text about your feelings.''"

definition msg_failed :: string where
  "msg_failed = ''Text analysis failed. Please try again.''"

definition msg_none :: string where
  "msg_none = ''Could not detect emotion. Please try again with clearer input.''"

subsection \<open>Playlists\<close>

text \<open>\<^verbatim>\<open>table.get(mood, table['chill'])\<close>: the default is evaluated before the lookup.\<close>

definition get_or_chill :: "(ustr \<times> playlist list) list \<Rightarrow> ustr \<Rightarrow> py_exception + playlist list" where
  "get_or_chill table mood =
     (case getitem table (u ''chill'') of
        Inl e \<Rightarrow> Inl e
      | Inr dflt \<Rightarrow> Inr (dict_get table mood dflt))"

definition item_to_playlist :: "search_item \<Rightarrow> playlist" where
  "item_to_playlist item =
     \<lparr>pl_name = item_name item,
      pl_url = item_spotify_url item,
      pl_image = (case item_images item of [] \<Rightarrow> None | i # _ \<Rightarrow> Some i)\<rparr>"

text \<open>
  Without a Spotify client the static tables answer, outside any \<^verbatim>\<open>try\<close>. With a
  client, every exception of the search is caught and the result is the empty list.
\<close>

definition get_spotify_playlists ::
  "(ustr \<Rightarrow> py_exception + search_item list) option \<Rightarrow> ustr \<Rightarrow> ustr \<Rightarrow> py_exception + playlist list" where
  "get_spotify_playlists client mood language =
     (case client of
        None \<Rightarrow>
          (if language = u ''hi'' then get_or_chill sample_playlists_hi mood
           else get_or_chill sample_playlists mood)
      | Some search \<Rightarrow>
          (case dict_get search_queries mood [mood] of
             [] \<Rightarrow> Inr []
           | query # _ \<Rightarrow>
               (case search query of
                  Inl e \<Rightarrow> Inr []
                | Inr items \<Rightarrow> Inr (map item_to_playlist items))))"

subsection \<open>Facial emotion detection\<close>

text \<open>
  The first part of the handler: it yields \<^verbatim>\<open>facial_emotion\<close> and \<^verbatim>\<open>facial_confidence\<close>
  and never raises. Scores above 1 are read as percentages.
\<close>

definition facial_detection :: "env \<Rightarrow> ustr option \<Rightarrow> ustr option \<times> real" where
  "facial_detection env image_field =
     (case image_field of
        None \<Rightarrow> (None, 0)
      | Some image_data \<Rightarrow>
          (case analyze_image env image_data of
             DeepFaceMissing \<Rightarrow> (None, 0)
           | AnalysisRaised \<Rightarrow> (None, 0)
           | ImageNotDecoded \<Rightarrow> (None, 0)
           | Analyzed NotADict \<Rightarrow> (None, 0)
           | Analyzed (ResultDict None dominant_emotion) \<Rightarrow> (dominant_emotion, 0)
           | Analyzed (ResultDict (Some []) dominant_emotion) \<Rightarrow> (dominant_emotion, 0)
           | Analyzed (ResultDict (Some (item # items)) dominant_emotion) \<Rightarrow>
               (let emotions_dict = item # items;
                    facial_emotion = fst (max_from item items);
                    score = dict_get emotions_dict facial_emotion 0
                in (Some facial_emotion,
                    if max_value (snd item) (map snd items) > 1 then score / 100 else score))))"

subsection \<open>Text emotion detection\<close>

text \<open>
  The second part of the handler either returns a response at once or goes on with
  \<^verbatim>\<open>language\<close>, \<^verbatim>\<open>text_emotion\<close> and \<^verbatim>\<open>text_confidence\<close>. The variable \<^verbatim>\<open>language\<close>
  is assigned only here, so it is unbound (\<open>None\<close>) when this part is skipped.
\<close>

datatype text_outcome =
  Return response
| Continue "ustr option" "ustr option" real

text \<open>
  \<^verbatim>\<open>text_emotion = max(emotion_scores, key=emotion_scores.get)\<close> and
  \<^verbatim>\<open>text_confidence = float(min(emotion_scores[text_emotion] / 5.0, 1.0))\<close>
\<close>

definition keyword_signal :: "ustr \<Rightarrow> (ustr \<times> nat) list \<Rightarrow> py_exception + text_outcome" where
  "keyword_signal language scores =
     (case max_entry scores of
        Inl e \<Rightarrow> Inl e
      | Inr (text_emotion, score) \<Rightarrow>
          Inr (Continue (Some language) (Some text_emotion) (min (real score / 5) 1)))"

text \<open>The body of the \<^verbatim>\<open>try\<close>; \<open>Inl\<close> is an exception that the \<^verbatim>\<open>except\<close> will catch.\<close>

text \<open>\<^verbatim>\<open>is_hindi\<close> and \<^verbatim>\<open>language\<close>, computed from the lower-cased, stripped text.\<close>

definition language_of :: "ustr \<Rightarrow> ustr" where
  "language_of text = (if has_devanagari text then u ''hi'' else u ''en'')"

definition text_analysis :: "env \<Rightarrow> ustr \<Rightarrow> py_exception + text_outcome" where
  "text_analysis env raw =
     (let text = strip (str_lower env raw);
          scores = emotion_scores text;
          is_hindi = has_devanagari text;
          language = language_of text
      in if is_hindi then
           (if scores \<noteq> [] then keyword_signal language scores
            else Inr (Return (Err400 msg_text)))
         else
           (case te_get_emotion env raw of
              Inl e \<Rightarrow> Inl e
            | Inr text_emotions \<Rightarrow>
                if text_emotions \<noteq> [] \<and> list_ex (\<lambda>v. v \<noteq> 0) (map snd text_emotions) then
                  (case max_entry text_emotions of
                     Inl e \<Rightarrow> Inl e
                   | Inr (te_emotion, te_score) \<Rightarrow>
                       if scores \<noteq> [] then
                         (case max_entry scores of
                            Inl e \<Rightarrow> Inl e
                          | Inr (keyword_emotion, kw_score) \<Rightarrow>
                              if kw_score \<ge> 2 \<or> (kw_score > 0 \<and> te_score < 0.3) then
                                Inr (Continue (Some language) (Some keyword_emotion)
                                       (min (real kw_score / 5) 1))
                              else Inr (Continue (Some language) (Some te_emotion) te_score))
                       else Inr (Continue (Some language) (Some te_emotion) te_score))
                else if scores \<noteq> [] then keyword_signal language scores
                else Inr (Return (Err400 msg_text))))"

definition text_detection :: "env \<Rightarrow> ustr option \<Rightarrow> text_outcome" where
  "text_detection env text_field =
     (case text_field of
        None \<Rightarrow> Continue None None 0
      | Some raw \<Rightarrow>
          if strip raw = [] then Continue None None 0
          else (case text_analysis env raw of
                  Inl e \<Rightarrow> Return (Err400 msg_failed)
                | Inr outcome \<Rightarrow> outcome))"

subsection \<open>Combining the two signals\<close>

text \<open>
  The result is \<^verbatim>\<open>final_emotion\<close>, \<^verbatim>\<open>confidence\<close> and \<^verbatim>\<open>final_method\<close>. When neither
  signal is there, \<^verbatim>\<open>final_method\<close> keeps the value of \<^verbatim>\<open>detection_method\<close>, which no
  response reports; it is \<open>None\<close> here.
\<close>

definition combine :: "ustr option \<Rightarrow> real \<Rightarrow> ustr option \<Rightarrow> real \<Rightarrow> ustr option \<times> real \<times> ustr option" where
  "combine facial_emotion facial_confidence text_emotion text_confidence =
     (if truthy facial_emotion \<and> truthy text_emotion then
        (if facial_confidence \<ge> text_confidence then
           (facial_emotion, facial_confidence,
            Some (if facial_confidence > text_confidence then u ''facial'' else u ''combined''))
         else
           (text_emotion, text_confidence,
            Some (if text_confidence > facial_confidence then u ''text'' else u ''combined'')))
      else if truthy facial_emotion then (facial_emotion, facial_confidence, Some (u ''facial''))
      else if truthy text_emotion then (text_emotion, text_confidence, Some (u ''text''))
      else (None, 0, None))"

subsection \<open>The handler\<close>

text \<open>
  The last part of the handler. Reading the unbound \<^verbatim>\<open>language\<close> in the call of
  \<^verbatim>\<open>get_spotify_playlists\<close> raises, outside any \<^verbatim>\<open>try\<close>.
\<close>

definition respond ::
  "env \<Rightarrow> ustr option \<Rightarrow> real \<Rightarrow> ustr option \<Rightarrow> ustr option \<Rightarrow> real \<Rightarrow> response" where
  "respond env facial_emotion facial_confidence language text_emotion text_confidence =
     (case combine facial_emotion facial_confidence text_emotion text_confidence of
        (final_emotion, confidence, final_method) \<Rightarrow>
          (case final_emotion of
             None \<Rightarrow> Err400 msg_none
           | Some emotion \<Rightarrow>
               if emotion = [] then Err400 msg_none
               else
                 (let emotion_lower = str_lower env emotion;
                      mood = mood_of emotion_lower
                  in case language of
                       None \<Rightarrow> Err500 UnboundLocalError
                     | Some lang \<Rightarrow>
                         (case get_spotify_playlists (sp env) mood lang of
                            Inl e \<Rightarrow> Err500 e
                          | Inr playlists \<Rightarrow>
                              Ok200 \<lparr>r_emotion = emotion_lower, r_mood = mood, r_language = lang,
                                     r_playlists = playlists, r_method = final_method,
                                     r_confidence = confidence,
                                     r_facial_emotion = facial_emotion,
                                     r_facial_confidence = facial_confidence,
                                     r_text_emotion = text_emotion,
                                     r_text_confidence = text_confidence\<rparr>))))"

definition detect_emotion :: "env \<Rightarrow> request \<Rightarrow> response" where
  "detect_emotion env data =
     (case facial_detection env (req_image data) of
        (facial_emotion, facial_confidence) \<Rightarrow>
          (case text_detection env (req_text data) of
             Return r \<Rightarrow> r
           | Continue language text_emotion text_confidence \<Rightarrow>
               respond env facial_emotion facial_confidence language text_emotion text_confidence))"


subsection \<open>The vocabularies and tables of the specification\<close>

text \<open>
  The specification names two vocabularies, speaks of a Hindi keyword table of its own,
  and of counting the occurrences of a keyword. These definitions follow its words; they
  are what the program is compared with.
\<close>

definition EmotionVocabulary :: "ustr list" where
  "EmotionVocabulary =
     [u ''happy'', u ''sad'', u ''angry'', u ''fear'', u ''surprise'', u ''neutral'', u ''disgust'',
      u ''joy'', u ''anticipation'', u ''trust'', u ''positive'', u ''negative'', u ''worry'',
      u ''love'']"

definition MoodVocabulary :: "ustr list" where
  "MoodVocabulary =
     [u ''happy'', u ''sad'', u ''energetic'', u ''calm'', u ''excited'', u ''chill'', u ''dark'',
      u ''romantic'']"

text \<open>The Hindi keyword table: of each label, the keywords written in Devanagari.\<close>

definition hindi_keywords :: "(ustr \<times> ustr list) list" where
  "hindi_keywords = map (\<lambda>entry. (fst entry, filter has_devanagari (snd entry))) emotion_keywords"

text \<open>The number of places of the text at which the keyword occurs.\<close>

fun occurrences :: "ustr \<Rightarrow> ustr \<Rightarrow> nat" where
  "occurrences keyword [] = 0"
| "occurrences keyword (c # cs) =
     (if prefix keyword (c # cs) then 1 else 0) + occurrences keyword cs"

definition occurrence_score :: "ustr list \<Rightarrow> ustr \<Rightarrow> nat" where
  "occurrence_score keywords text = sum_list (map (\<lambda>keyword. occurrences keyword text) keywords)"

text \<open>
  \<open>lower\<close> neither removes nor introduces a Devanagari letter. Python's \<^verbatim>\<open>str.lower\<close>
  is such a function: the Devanagari block has no case.
\<close>

definition keeps_devanagari :: "(ustr \<Rightarrow> ustr) \<Rightarrow> bool" where
  "keeps_devanagari lower = (\<forall>t. has_devanagari (lower t) = has_devanagari t)"

subsection \<open>A concrete environment\<close>

text \<open>
  Lower-casing of the ASCII letters, which is what \<^verbatim>\<open>str.lower\<close> does on a text of
  ASCII and Devanagari code points.
\<close>

definition ascii_lower :: "ustr \<Rightarrow> ustr" where
  "ascii_lower s = map (\<lambda>c. if 0x41 \<le> c \<and> c \<le> 0x5A then c + 0x20 else c) s"

text \<open>
  DeepFace sees a happy face (scores in percent), \<^verbatim>\<open>text2emotion\<close> answers with
  \<open>te\<close>, and there are no Spotify credentials.
\<close>

definition example_env :: "(ustr \<times> real) list \<Rightarrow> env" where
  "example_env te =
     \<lparr>str_lower = ascii_lower,
      analyze_image = (\<lambda>_. Analyzed (ResultDict
         (Some [(u ''angry'', 2), (u ''happy'', 90), (u ''sad'', 8)]) (Some (u ''happy'')))),
      te_get_emotion = (\<lambda>_. Inr te),
      sp = None\<rparr>"

definition te_silent :: "(ustr \<times> real) list" where
  "te_silent = [(u ''Happy'', 0), (u ''Angry'', 0), (u ''Surprise'', 0), (u ''Sad'', 0), (u ''Fear'', 0)]"

definition te_sad :: "(ustr \<times> real) list" where
  "te_sad = [(u ''Happy'', 0), (u ''Angry'', 0), (u ''Surprise'', 0), (u ''Sad'', 1), (u ''Fear'', 0)]"

text \<open>A text of three Devanagari letters, a space and the English word \<open>sad\<close>.\<close>

definition mixed_text :: ustr where
  "mixed_text = [0x92E, 0x948, 0x902, 0x20] @ u ''sad''"


section \<open>Auxiliary facts\<close>

subsection \<open>Stripping and searching\<close>

lemma dropWhile_all: "list_all P xs \<Longrightarrow> dropWhile P xs = []"
  by (induction xs) auto

lemma strip_blank: "list_all py_isspace ws \<Longrightarrow> strip ws = []"
  by (simp add: strip_def dropWhile_all)

lemma dropWhile_nil_iff: "dropWhile P xs = [] \<longleftrightarrow> list_all P xs"
  by (induction xs) auto

lemma list_all_dropWhile: "list_all P (dropWhile P xs) \<longleftrightarrow> list_all P xs"
  by (induction xs) auto

lemma strip_empty_iff: "strip s = [] \<longleftrightarrow> list_all py_isspace s"
  by (simp add: strip_def dropWhile_nil_iff list_all_iff list_all_dropWhile [unfolded list_all_iff])

lemma list_ex_dropWhile:
  "(\<And>c. P c \<Longrightarrow> \<not> Q c) \<Longrightarrow> list_ex P (dropWhile Q xs) = list_ex P xs"
  by (induction xs) auto

lemma devanagari_not_space: "0x0900 \<le> c \<and> c \<le> 0x097F \<Longrightarrow> \<not> py_isspace c"
  by (auto simp: py_isspace_def)

lemma has_devanagari_strip: "has_devanagari (strip t) = has_devanagari t"
proof -
  have "has_devanagari (strip t) = has_devanagari (rev (dropWhile py_isspace t))"
    unfolding has_devanagari_def strip_def
    by (simp only: list_ex_rev list_ex_dropWhile [OF devanagari_not_space])
  also have "\<dots> = has_devanagari t"
    unfolding has_devanagari_def
    by (simp only: list_ex_rev list_ex_dropWhile [OF devanagari_not_space])
  finally show ?thesis .
qed

text \<open>\<open>py_in\<close> is the contiguous-sublist relation of the library.\<close>

lemma py_in_sublist: "py_in keyword text = sublist keyword text"
  by (induction "text") (auto simp: sublist_Cons_right)

subsection \<open>The maximal entry of a dict\<close>

lemma max_from_mem: "max_from best items \<in> set (best # items)"
  by (induction items arbitrary: best) (auto split: if_splits)

lemma max_from_ge_best: "snd best \<le> snd (max_from best items)"
proof (induction items arbitrary: best)
  case Nil
  show ?case by simp
next
  case (Cons item items)
  show ?case
    using Cons.IH [of "if snd best < snd item then item else best"]
    by (auto split: if_splits)
qed

lemma max_from_ge: "x \<in> set (best # items) \<Longrightarrow> snd x \<le> snd (max_from best items)"
proof (induction items arbitrary: best)
  case Nil
  then show ?case by simp
next
  case (Cons item items)
  let ?b = "if snd best < snd item then item else best"
  from Cons.prems consider "x = best" | "x = item" | "x \<in> set items" by auto
  then show ?case
  proof cases
    case 1
    have "snd best \<le> snd ?b" by auto
    also have "\<dots> \<le> snd (max_from ?b items)" by (rule max_from_ge_best)
    finally show ?thesis using 1 by simp
  next
    case 2
    have "snd item \<le> snd ?b" by auto
    also have "\<dots> \<le> snd (max_from ?b items)" by (rule max_from_ge_best)
    finally show ?thesis using 2 by simp
  next
    case 3
    then have "x \<in> set (?b # items)" by simp
    from Cons.IH [OF this] show ?thesis by simp
  qed
qed

lemma max_entry_nonempty:
  assumes "d \<noteq> []"
  shows "\<exists>k v. max_entry d = Inr (k, v) \<and> (k, v) \<in> set d"
proof -
  from assms obtain item items where d: "d = item # items" by (cases d) auto
  let ?k = "fst (max_from item items)"
  have "max_from item items \<in> set d" unfolding d by (rule max_from_mem)
  then have "?k \<in> fst ` set d" by (rule imageI)
  then obtain v where v: "map_of d ?k = Some v"
    by (metis map_of_eq_None_iff not_Some_eq)
  then have "(?k, v) \<in> set d" by (rule map_of_SomeD)
  moreover have "max_entry d = Inr (?k, v)"
    using v by (simp add: max_entry_def py_max_key_def getitem_def d)
  ultimately show ?thesis by blast
qed

lemma max_entry_max:
  assumes "distinct (map fst d)" and "max_entry d = Inr (k, v)"
  shows "(k, v) \<in> set d \<and> (\<forall>x \<in> set d. snd x \<le> v)"
proof -
  from assms(2) obtain item items where d: "d = item # items"
    by (cases d) (auto simp: max_entry_def py_max_key_def)
  let ?m = "max_from item items"
  from assms(2) have k: "k = fst ?m" and v: "map_of d k = Some v"
    by (auto simp: max_entry_def py_max_key_def getitem_def d split: option.splits)
  have "?m \<in> set d" unfolding d by (rule max_from_mem)
  then have "(k, snd ?m) \<in> set d" by (simp add: k)
  with assms(1) have "map_of d k = Some (snd ?m)" by simp
  with v have "v = snd ?m" by simp
  moreover have "(k, v) \<in> set d" using v by (rule map_of_SomeD)
  moreover have "\<forall>x \<in> set d. snd x \<le> snd ?m"
    unfolding d using max_from_ge by blast
  ultimately show ?thesis by simp
qed

subsection \<open>Literals\<close>

lemma u_eq_iff [simp]: "u a = u b \<longleftrightarrow> a = b"
proof -
  have "inj (of_char :: char \<Rightarrow> nat)"
    by (rule injI) simp
  then have "inj (map (of_char :: char \<Rightarrow> nat))" by simp
  then show ?thesis unfolding u_def by (auto dest: injD)
qed

lemma u_Nil_iff [simp]: "u a = [] \<longleftrightarrow> a = []"
  by (simp add: u_def)

subsection \<open>The static tables\<close>

lemma chill_en:
  "\<exists>ps. getitem sample_playlists (u ''chill'') = Inr ps
     \<and> map_of sample_playlists (u ''chill'') = Some ps
     \<and> map pl_name ps = [u ''Chill Hits'', u ''Lofi Beats'', u ''Chill Vibes'']"
  by (simp add: getitem_def sample_playlists_def)

lemma chill_hi:
  "\<exists>ps. getitem sample_playlists_hi (u ''chill'') = Inr ps
     \<and> map_of sample_playlists_hi (u ''chill'') = Some ps
     \<and> map pl_name ps = [u ''Bollywood Mellow'', u ''Indie Hindi Chill'', u ''Romantic Bollywood'']"
  by (simp add: getitem_def sample_playlists_hi_def)

lemma get_spotify_playlists_total: "\<exists>ps. get_spotify_playlists client mood language = Inr ps"
proof (cases client)
  case None
  from chill_en chill_hi show ?thesis
    by (auto simp: get_spotify_playlists_def None get_or_chill_def)
next
  case (Some search)
  then show ?thesis
    by (simp add: get_spotify_playlists_def split: list.splits sum.splits)
qed

lemma dict_get_absent: "k \<notin> fst ` set d \<Longrightarrow> dict_get d k dflt = dflt"
  by (simp add: dict_get_def map_of_eq_None_iff [THEN iffD2])

subsection \<open>The exits of the text part\<close>

lemma keyword_signal_cases:
  "(\<exists>e. keyword_signal l scores = Inl e)
   \<or> (\<exists>te tc. keyword_signal l scores = Inr (Continue (Some l) (Some te) tc))"
  by (simp add: keyword_signal_def split: sum.splits prod.splits)

lemma text_analysis_cases:
  "(\<exists>e. text_analysis env raw = Inl e)
   \<or> text_analysis env raw = Inr (Return (Err400 msg_text))
   \<or> (\<exists>l te tc. text_analysis env raw = Inr (Continue (Some l) (Some te) tc))"
  using keyword_signal_cases [of "language_of (strip (str_lower env raw))"
      "emotion_scores (strip (str_lower env raw))"]
  by (auto simp: text_analysis_def Let_def split: sum.splits prod.splits)

lemma text_detection_cases:
  "text_detection env text_field = Continue None None 0
   \<or> text_detection env text_field = Return (Err400 msg_text)
   \<or> text_detection env text_field = Return (Err400 msg_failed)
   \<or> (\<exists>l te tc. text_detection env text_field = Continue (Some l) (Some te) tc)"
proof (cases text_field)
  case None
  then show ?thesis by (simp add: text_detection_def)
next
  case (Some raw)
  show ?thesis
    using text_analysis_cases [of env raw]
    by (auto simp: text_detection_def Some)
qed

lemma text_continue_language:
  assumes "text_detection env text_field = Continue language (Some te) tc"
  shows "\<exists>l. language = Some l"
  using text_detection_cases [of env text_field] assms by auto

lemma respond_Ok200:
  assumes "respond env fe fc language te tc = Ok200 p"
  shows "(\<exists>emotion. r_emotion p = str_lower env emotion) \<and> r_mood p = mood_of (r_emotion p)"
  using assms
  by (auto simp: respond_def Let_def split: prod.splits option.splits if_splits sum.splits)

lemma detect_emotion_Ok200:
  assumes "detect_emotion env data = Ok200 p"
  shows "(\<exists>emotion. r_emotion p = str_lower env emotion) \<and> r_mood p = mood_of (r_emotion p)"
proof -
  obtain fe fc where f: "facial_detection env (req_image data) = (fe, fc)"
    by (cases "facial_detection env (req_image data)")
  from text_detection_cases [of env "req_text data"] assms f
  obtain language te tc where "respond env fe fc language te tc = Ok200 p"
    by (auto simp: detect_emotion_def)
  then show ?thesis by (rule respond_Ok200)
qed

subsection \<open>The mood table\<close>

lemma mood_of_in_vocabulary: "mood_of label \<in> set MoodVocabulary"
proof (cases "map_of emotion_to_mood label")
  case None
  then show ?thesis by (simp add: mood_of_def dict_get_def MoodVocabulary_def)
next
  case (Some m)
  then have "(label, m) \<in> set emotion_to_mood" by (rule map_of_SomeD)
  then have "m \<in> snd ` set emotion_to_mood" by force
  also have "snd ` set emotion_to_mood \<subseteq> set MoodVocabulary"
    by (simp add: emotion_to_mood_def MoodVocabulary_def)
  finally show ?thesis using Some by (simp add: mood_of_def dict_get_def)
qed

lemma emotion_keys: "map fst emotion_to_mood = EmotionVocabulary"
  by (simp add: emotion_to_mood_def EmotionVocabulary_def)

lemma mood_of_unknown:
  assumes "label \<notin> set EmotionVocabulary"
  shows "mood_of label = u ''chill''"
proof -
  have "set EmotionVocabulary = fst ` set emotion_to_mood"
    by (simp add: emotion_keys [symmetric])
  with assms have "label \<notin> fst ` set emotion_to_mood" by simp
  then show ?thesis unfolding mood_of_def by (rule dict_get_absent)
qed

lemma mood_of_known:
  "map mood_of EmotionVocabulary =
     [u ''happy'', u ''sad'', u ''energetic'', u ''calm'', u ''excited'', u ''chill'', u ''dark'',
      u ''happy'', u ''excited'', u ''calm'', u ''happy'', u ''sad'', u ''calm'', u ''romantic'']"
  by (simp add: EmotionVocabulary_def mood_of_def dict_get_def emotion_to_mood_def)

subsection \<open>Evaluations in the concrete environment\<close>

lemma example_facial:
  "facial_detection (example_env te) (Some img) = (Some (u ''happy''), 9 / 10)"
  by (simp add: facial_detection_def example_env_def dict_get_def)

lemma scores_i_am_sad:
  "emotion_scores (strip (ascii_lower (u ''I am SAD''))) = [(u ''sad'', 1)]"
  by (simp add: emotion_scores_def score_table_def keyword_score_def emotion_keywords_def u_def
      strip_def py_isspace_def ascii_lower_def)

lemma latin_i_am_sad: "\<not> has_devanagari (strip (ascii_lower (u ''I am SAD'')))"
  by (simp add: has_devanagari_def u_def strip_def py_isspace_def ascii_lower_def)

lemma nonblank_i_am_sad: "strip (u ''I am SAD'') \<noteq> []"
  by (simp add: u_def strip_def py_isspace_def)

lemma example_text_sad:
  "text_detection (example_env te_sad) (Some (u ''I am SAD''))
     = Continue (Some (u ''en'')) (Some (u ''Sad'')) 1"
  by (simp add: text_detection_def text_analysis_def nonblank_i_am_sad Let_def
      example_env_def scores_i_am_sad [simplified example_env_def] latin_i_am_sad language_of_def
      te_sad_def max_entry_def py_max_key_def getitem_def)

lemma lower_Sad: "ascii_lower (u ''Sad'') = u ''sad''"
  by (simp add: ascii_lower_def u_def)

lemma example_playlists_sad:
  "\<exists>ps. get_spotify_playlists None (u ''sad'') (u ''en'') = Inr ps
     \<and> map pl_name ps = [u ''Life Sucks'', u ''Sad Indie'', u ''Melancholy'']"
  by (simp add: get_spotify_playlists_def get_or_chill_def getitem_def dict_get_def
      sample_playlists_def)

lemma mood_of_sad: "mood_of (u ''sad'') = u ''sad''"
  by (simp add: mood_of_def dict_get_def emotion_to_mood_def)

subsection \<open>Combining\<close>

lemma combine_both:
  assumes "fe \<noteq> []" and "te \<noteq> []"
  shows "combine (Some fe) fc (Some te) tc =
           (if fc > tc then (Some fe, fc, Some (u ''facial''))
            else if tc > fc then (Some te, tc, Some (u ''text''))
            else (Some fe, fc, Some (u ''combined'')))"
  using assms by (auto simp: combine_def truthy_def)

subsection \<open>Language\<close>

lemma has_devanagari_nonblank: "has_devanagari raw \<Longrightarrow> strip raw \<noteq> []"
proof
  assume a: "has_devanagari raw" and "strip raw = []"
  then have "has_devanagari (strip raw) = False" by (simp add: has_devanagari_def)
  with a show False by (simp add: has_devanagari_strip)
qed

lemma keeps_devanagari_text:
  "keeps_devanagari lower \<Longrightarrow> has_devanagari (strip (lower raw)) = has_devanagari raw"
  by (simp add: has_devanagari_strip keeps_devanagari_def)

lemma keeps_devanagari_ascii_lower: "keeps_devanagari ascii_lower"
  unfolding keeps_devanagari_def
proof
  fix t show "has_devanagari (ascii_lower t) = has_devanagari t"
    by (induction t) (auto simp: has_devanagari_def ascii_lower_def)
qed

lemma keyword_signal_language:
  "keyword_signal l scores = Inr (Continue language te tc) \<Longrightarrow> language = Some l"
  by (auto simp: keyword_signal_def split: sum.splits prod.splits)

lemma text_analysis_language:
  assumes "text_analysis env raw = Inr (Continue language te tc)"
  shows "language = Some (language_of (strip (str_lower env raw)))"
  using assms
  by (auto simp: text_analysis_def Let_def split: sum.splits prod.splits if_splits
      dest: keyword_signal_language)

lemma text_detection_language:
  assumes "strip raw \<noteq> []" and "text_detection env (Some raw) = Continue language te tc"
  shows "language = Some (language_of (strip (str_lower env raw)))"
  using assms
  by (auto simp: text_detection_def split: sum.splits dest: text_analysis_language)

lemma respond_language:
  assumes "respond env fe fc language te tc = Ok200 p"
  shows "language = Some (r_language p)"
  using assms
  by (auto simp: respond_def Let_def split: prod.splits option.splits if_splits sum.splits)

lemma detect_emotion_language:
  assumes "detect_emotion env data = Ok200 p"
  shows "\<exists>te tc. text_detection env (req_text data) = Continue (Some (r_language p)) te tc"
proof -
  obtain fe fc where f: "facial_detection env (req_image data) = (fe, fc)"
    by (cases "facial_detection env (req_image data)")
  from text_detection_cases [of env "req_text data"] assms f
  obtain language te tc where t: "text_detection env (req_text data) = Continue language te tc"
    and r: "respond env fe fc language te tc = Ok200 p"
    by (auto simp: detect_emotion_def)
  from r have "language = Some (r_language p)" by (rule respond_language)
  with t show ?thesis by simp
qed

subsection \<open>The mixed text\<close>

lemma mixed_text_devanagari: "has_devanagari mixed_text"
  by (simp add: has_devanagari_def mixed_text_def)

lemma mixed_text_stripped: "strip (ascii_lower mixed_text) = mixed_text"
  by (simp add: mixed_text_def strip_def ascii_lower_def u_def py_isspace_def)

lemma mixed_text_scores: "emotion_scores mixed_text = [(u ''sad'', 1)]"
  by (simp add: emotion_scores_def score_table_def keyword_score_def emotion_keywords_def u_def
      mixed_text_def)

lemma mixed_text_detection:
  "text_detection (example_env te) (Some mixed_text)
     = Continue (Some (u ''hi'')) (Some (u ''sad'')) (1 / 5)"
proof -
  have l: "str_lower (example_env te) = ascii_lower" by (simp add: example_env_def)
  have n: "strip mixed_text \<noteq> []"
    using mixed_text_devanagari by (rule has_devanagari_nonblank)
  show ?thesis
    by (simp add: text_detection_def n text_analysis_def Let_def l mixed_text_stripped
        mixed_text_devanagari mixed_text_scores language_of_def keyword_signal_def max_entry_def
        py_max_key_def getitem_def)
qed

subsection \<open>Keyword scores\<close>

lemma score_table_keys: "map fst (score_table table text) =
    map fst (filter (\<lambda>entry. keyword_score (snd entry) text > 0) table)"
  unfolding score_table_def by (induction table) auto

lemma score_table_distinct:
  "distinct (map fst table) \<Longrightarrow> distinct (map fst (score_table table text))"
  unfolding score_table_keys by (rule distinct_map_filter)

lemma emotion_keywords_distinct: "distinct (map fst emotion_keywords)"
  by (simp add: emotion_keywords_def)

lemma emotion_scores_distinct: "distinct (map fst (emotion_scores text))"
  unfolding emotion_scores_def using emotion_keywords_distinct by (rule score_table_distinct)

lemma emotion_scores_max:
  assumes "emotion_scores text \<noteq> []"
  shows "\<exists>label score. max_entry (emotion_scores text) = Inr (label, score)
           \<and> (label, score) \<in> set (emotion_scores text)
           \<and> (\<forall>x \<in> set (emotion_scores text). snd x \<le> score)"
proof -
  from max_entry_nonempty [OF assms] obtain label score
    where m: "max_entry (emotion_scores text) = Inr (label, score)" by auto
  from max_entry_max [OF emotion_scores_distinct m] m show ?thesis by auto
qed

lemma score_table_positive: "x \<in> set (score_table table text) \<Longrightarrow> snd x > 0"
  by (auto simp: score_table_def)

lemma score_table_hit:
  assumes "(label, keywords) \<in> set table" and "keyword \<in> set keywords"
    and "sublist keyword text"
  shows "label \<in> fst ` set (score_table table text)"
proof -
  from assms(2,3) have "keyword \<in> set (filter (\<lambda>keyword. py_in keyword text) keywords)"
    by (simp add: py_in_sublist)
  then have "filter (\<lambda>keyword. py_in keyword text) keywords \<noteq> []"
    by (auto simp: filter_empty_conv)
  then have "keyword_score keywords text > 0" by (simp add: keyword_score_def)
  with assms(1) have "(label, keyword_score keywords text) \<in> set (score_table table text)"
    by (force simp: score_table_def)
  then show ?thesis by force
qed

subsection \<open>The branches of the text part\<close>

lemma text_detection_hindi:
  assumes "strip raw \<noteq> []" and "has_devanagari (strip (str_lower env raw))"
  shows "text_detection env (Some raw) =
           (if emotion_scores (strip (str_lower env raw)) = [] then Return (Err400 msg_text)
            else case keyword_signal (u ''hi'') (emotion_scores (strip (str_lower env raw))) of
                   Inl e \<Rightarrow> Return (Err400 msg_failed) | Inr outcome \<Rightarrow> outcome)"
  using assms by (simp add: text_detection_def text_analysis_def Let_def language_of_def)

lemma text_detection_english:
  assumes "strip raw \<noteq> []" and "\<not> has_devanagari (strip (str_lower env raw))"
    and "te_get_emotion env raw = Inr text_emotions"
    and "list_ex (\<lambda>v. v \<noteq> 0) (map snd text_emotions)"
    and "max_entry text_emotions = Inr (te_emotion, te_score)"
  shows "text_detection env (Some raw) =
           (if emotion_scores (strip (str_lower env raw)) = []
            then Continue (Some (u ''en'')) (Some te_emotion) te_score
            else case max_entry (emotion_scores (strip (str_lower env raw))) of
                   Inl e \<Rightarrow> Return (Err400 msg_failed)
                 | Inr (keyword_emotion, kw_score) \<Rightarrow>
                     if kw_score \<ge> 2 \<or> (kw_score > 0 \<and> te_score < 0.3)
                     then Continue (Some (u ''en'')) (Some keyword_emotion) (min (real kw_score / 5) 1)
                     else Continue (Some (u ''en'')) (Some te_emotion) te_score)"
proof -
  from assms(4) have "text_emotions \<noteq> []" by auto
  with assms show ?thesis
    by (auto simp: text_detection_def text_analysis_def Let_def language_of_def
        split: sum.splits prod.splits)
qed

subsection \<open>More evaluations\<close>

lemma glad_stripped: "strip (ascii_lower (u ''So HAPPY and glad'')) = u ''so happy and glad''"
  by (simp add: strip_def ascii_lower_def u_def py_isspace_def)

lemma glad_scores: "emotion_scores (u ''so happy and glad'') = [(u ''happy'', 2)]"
  by (simp add: emotion_scores_def score_table_def keyword_score_def emotion_keywords_def u_def)

lemma glad_latin: "\<not> has_devanagari (u ''so happy and glad'')"
  by (simp add: has_devanagari_def u_def)

lemma glad_nonblank: "strip (u ''So HAPPY and glad'') \<noteq> []"
  by (simp add: u_def strip_def py_isspace_def)

lemma no_request_data: "detect_emotion env \<lparr>req_image = None, req_text = None\<rparr> = Err400 msg_none"
  by (simp add: detect_emotion_def facial_detection_def text_detection_def respond_def
      combine_def truthy_def)

lemma text_detection_silent:
  assumes "strip raw \<noteq> []" and "emotion_scores (strip (str_lower env raw)) = []"
    and "te_get_emotion env raw = Inr text_emotions"
    and "\<not> list_ex (\<lambda>v. v \<noteq> 0) (map snd text_emotions)"
  shows "text_detection env (Some raw) = Return (Err400 msg_text)"
  using assms by (simp add: text_detection_def text_analysis_def Let_def)

lemma respond_no_signal:
  assumes "\<not> truthy fe" and "\<not> truthy te"
  shows "respond env fe fc language te tc = Err400 msg_none"
  using assms by (simp add: respond_def combine_def)

lemma xyz_nonblank: "strip (u ''xyz'') \<noteq> []"
  by (simp add: u_def strip_def py_isspace_def)

lemma xyz_scores: "emotion_scores (strip (ascii_lower (u ''xyz''))) = []"
  by (simp add: emotion_scores_def score_table_def keyword_score_def emotion_keywords_def u_def
      strip_def py_isspace_def ascii_lower_def)

subsection \<open>Counting keywords\<close>

lemma keyword_score_card:
  assumes "distinct keywords"
  shows "keyword_score keywords text = card {keyword \<in> set keywords. sublist keyword text}"
proof -
  have "keyword_score keywords text = length (filter (\<lambda>keyword. sublist keyword text) keywords)"
    by (simp add: keyword_score_def py_in_sublist)
  also have "\<dots> = card (set (filter (\<lambda>keyword. sublist keyword text) keywords))"
  proof -
    from assms have "distinct (filter (\<lambda>keyword. sublist keyword text) keywords)"
      by (rule distinct_filter)
    then show ?thesis by (rule distinct_card [symmetric])
  qed
  also have "set (filter (\<lambda>keyword. sublist keyword text) keywords)
      = {keyword \<in> set keywords. sublist keyword text}"
    by (rule set_filter)
  finally show ?thesis .
qed

lemma keyword_score_pos:
  "keyword_score keywords text > 0 \<longleftrightarrow> (\<exists>keyword \<in> set keywords. sublist keyword text)"
  by (auto simp: keyword_score_def py_in_sublist filter_empty_conv)

lemma score_table_absent:
  "label \<notin> fst ` set table \<Longrightarrow> map_of (score_table table text) label = None"
  by (force simp: map_of_eq_None_iff score_table_def)

lemma map_of_score_table:
  assumes "distinct (map fst table)"
  shows "map_of (score_table table text) label =
           (case map_of table label of
              None \<Rightarrow> None
            | Some keywords \<Rightarrow>
                if keyword_score keywords text > 0 then Some (keyword_score keywords text)
                else None)"
  using assms
proof (induction table)
  case Nil
  show ?case by (simp add: score_table_def)
next
  case (Cons entry table)
  obtain k kws where e: "entry = (k, kws)" by (cases entry)
  from Cons.prems have d: "distinct (map fst table)" and k: "k \<notin> fst ` set table"
    by (simp_all add: e)
  have s: "score_table (entry # table) text =
      (if keyword_score kws text > 0 then [(k, keyword_score kws text)] else [])
      @ score_table table text"
    by (simp add: score_table_def e)
  show ?case
  proof (cases "label = k")
    case True
    with k have "map_of (score_table table text) label = None"
      by (simp add: score_table_absent)
    with True show ?thesis by (simp add: s [unfolded e] e)
  next
    case False
    with Cons.IH [OF d] show ?thesis by (simp add: s [unfolded e] e)
  qed
qed

lemma score_table_empty_iff:
  "score_table table text = [] \<longleftrightarrow>
     (\<forall>entry \<in> set table. \<forall>keyword \<in> set (snd entry). \<not> sublist keyword text)"
proof -
  have "score_table table text = [] \<longleftrightarrow>
        (\<forall>entry \<in> set table. \<not> keyword_score (snd entry) text > 0)"
    by (auto simp: score_table_def filter_empty_conv)
  then show ?thesis by (simp add: keyword_score_pos)
qed

lemma score_table_subseq: "subseq (map fst (score_table table text)) (map fst table)"
  unfolding score_table_keys by (induction table) auto

lemma emotion_keywords_lists_distinct:
  "list_all (\<lambda>entry. distinct (snd entry)) emotion_keywords"
  by (simp add: emotion_keywords_def u_def)

lemma sad_keywords:
  "map_of emotion_keywords (u ''sad'') = Some (dict_get emotion_keywords (u ''sad'') [])"
  by (simp add: emotion_keywords_def dict_get_def)

section \<open>The claims\<close>

subsection \<open>Claim C1\<close>

text \<open>
  C1. When a facial and a text signal are both present, the result has the emotion and the
  confidence of the signal with the greater confidence, with the method \<^verbatim>\<open>'facial'\<close> or
  \<^verbatim>\<open>'text'\<close> of that signal; when the confidences are equal the method is \<^verbatim>\<open>'combined'\<close>
  (and the emotion is the facial one). The handler then answers 200 with these values,
  the emotion in lower case.
\<close>

theorem C1_fusion_prefers_higher_confidence:
  assumes "fe \<noteq> []" and "te \<noteq> []"
  shows "combine (Some fe) fc (Some te) tc =
           (if fc > tc then (Some fe, fc, Some (u ''facial''))
            else if tc > fc then (Some te, tc, Some (u ''text''))
            else (Some fe, fc, Some (u ''combined'')))
         \<and> (facial_detection env (req_image data) = (Some fe, fc)
              \<and> text_detection env (req_text data) = Continue language (Some te) tc \<longrightarrow>
              (\<exists>p. detect_emotion env data = Ok200 p
                 \<and> (r_emotion p, r_confidence p, r_method p) =
                     (if fc > tc then (str_lower env fe, fc, Some (u ''facial''))
                      else if tc > fc then (str_lower env te, tc, Some (u ''text''))
                      else (str_lower env fe, fc, Some (u ''combined'')))))"
proof (intro conjI impI)
  show c: "combine (Some fe) fc (Some te) tc =
           (if fc > tc then (Some fe, fc, Some (u ''facial''))
            else if tc > fc then (Some te, tc, Some (u ''text''))
            else (Some fe, fc, Some (u ''combined'')))"
    using assms by (rule combine_both)
  assume a: "facial_detection env (req_image data) = (Some fe, fc)
              \<and> text_detection env (req_text data) = Continue language (Some te) tc"
  then obtain l where l: "language = Some l"
    using text_continue_language by blast
  let ?winner = "if fc \<ge> tc then fe else te"
  obtain ps where ps: "get_spotify_playlists (sp env) (mood_of (str_lower env ?winner)) l = Inr ps"
    using get_spotify_playlists_total by blast
  have d: "detect_emotion env data = respond env (Some fe) fc (Some l) (Some te) tc"
    using a by (simp add: detect_emotion_def l)
  show "\<exists>p. detect_emotion env data = Ok200 p
                 \<and> (r_emotion p, r_confidence p, r_method p) =
                     (if fc > tc then (str_lower env fe, fc, Some (u ''facial''))
                      else if tc > fc then (str_lower env te, tc, Some (u ''text''))
                      else (str_lower env fe, fc, Some (u ''combined'')))"
  proof (cases "fc \<ge> tc")
    case True
    with ps have "get_spotify_playlists (sp env) (mood_of (str_lower env fe)) l = Inr ps" by simp
    with True assms show ?thesis
      unfolding d by (auto simp: respond_def c Let_def)
  next
    case False
    with ps have "get_spotify_playlists (sp env) (mood_of (str_lower env te)) l = Inr ps" by simp
    with False assms show ?thesis
      unfolding d by (auto simp: respond_def c Let_def)
  qed
qed

text \<open>A happy face at 0.9 against the text \<^verbatim>\<open>I am SAD\<close>, which the classifier rates 1.\<close>

theorem C1_fusion_prefers_higher_confidence_witness:
  "u ''happy'' \<noteq> [] \<and> u ''Sad'' \<noteq> []
   \<and> facial_detection (example_env te_sad) (Some (u ''data:image/jpeg;base64,AAAA''))
        = (Some (u ''happy''), 9 / 10)
   \<and> text_detection (example_env te_sad) (Some (u ''I am SAD''))
        = Continue (Some (u ''en'')) (Some (u ''Sad'')) 1
   \<and> combine (Some (u ''happy'')) (9 / 10) (Some (u ''Sad'')) 1 = (Some (u ''Sad''), 1, Some (u ''text''))
   \<and> (\<exists>p. detect_emotion (example_env te_sad)
             \<lparr>req_image = Some (u ''data:image/jpeg;base64,AAAA''), req_text = Some (u ''I am SAD'')\<rparr>
             = Ok200 p
          \<and> r_emotion p = u ''sad'' \<and> r_confidence p = 1 \<and> r_method p = Some (u ''text''))"
proof -
  have h1: "u ''happy'' \<noteq> []" and h2: "u ''Sad'' \<noteq> []" by simp_all
  have l: "str_lower (example_env te_sad) = ascii_lower" by (simp add: example_env_def)
  note f = example_facial [of te_sad "u ''data:image/jpeg;base64,AAAA''"]
  note t = example_text_sad
  from C1_fusion_prefers_higher_confidence [OF h1 h2, of "9 / 10" 1 "example_env te_sad"
      "\<lparr>req_image = Some (u ''data:image/jpeg;base64,AAAA''), req_text = Some (u ''I am SAD'')\<rparr>"
      "Some (u ''en'')"] f t
  show ?thesis by (simp add: l lower_Sad)
qed

subsection \<open>Claim C2\<close>

text \<open>
  C2 as stated fails: in a text with Devanagari letters that contains the English word
  \<open>sad\<close> and no Hindi keyword, the Hindi keywords alone give no score, but the handler
  scores the label \<^verbatim>\<open>'sad'\<close> and answers with it.
\<close>

theorem C2_english_keyword_counterexample:
  "has_devanagari mixed_text
   \<and> score_table hindi_keywords mixed_text = []
   \<and> emotion_scores mixed_text = [(u ''sad'', 1)]
   \<and> text_detection (example_env te_silent) (Some mixed_text)
       = Continue (Some (u ''hi'')) (Some (u ''sad'')) (1 / 5)"
proof -
  have "score_table hindi_keywords mixed_text = []"
    by (simp add: hindi_keywords_def emotion_keywords_def has_devanagari_def u_def
        score_table_def keyword_score_def mixed_text_def)
  with mixed_text_devanagari mixed_text_scores mixed_text_detection [of te_silent]
  show ?thesis by (intro conjI)
qed

text \<open>
  C2, as amended. For a request whose text contains a Devanagari code point, the text
  signal comes from the keyword scores alone: the response is the 400 response when no
  keyword occurs, and otherwise the language is \<^verbatim>\<open>'hi'\<close>, the emotion is the label with
  the greatest score and the confidence is a fifth of that score, at most 1. The scores
  are taken on the one table \<^verbatim>\<open>emotion_keywords\<close>, which holds the English and the Hindi
  keywords of each label: every keyword of the table that occurs in the text, English or
  Hindi, gives its label a score. The text classifier is not consulted.
\<close>

theorem C2_hindi_text_scored_on_merged_table:
  assumes "keeps_devanagari (str_lower env)" and "has_devanagari raw"
  shows "(emotion_scores (strip (str_lower env raw)) = [] \<longrightarrow>
            text_detection env (Some raw) = Return (Err400 msg_text))
       \<and> (emotion_scores (strip (str_lower env raw)) \<noteq> [] \<longrightarrow>
            (\<exists>label score. max_entry (emotion_scores (strip (str_lower env raw))) = Inr (label, score)
               \<and> (label, score) \<in> set (emotion_scores (strip (str_lower env raw)))
               \<and> (\<forall>x \<in> set (emotion_scores (strip (str_lower env raw))). snd x \<le> score)
               \<and> text_detection env (Some raw)
                   = Continue (Some (u ''hi'')) (Some label) (min (real score / 5) 1)))
       \<and> (\<forall>label keywords keyword.
             (label, keywords) \<in> set emotion_keywords \<and> keyword \<in> set keywords
             \<and> sublist keyword (strip (str_lower env raw)) \<longrightarrow>
             label \<in> fst ` set (emotion_scores (strip (str_lower env raw))))
       \<and> text_detection (env\<lparr>te_get_emotion := classifier\<rparr>) (Some raw)
           = text_detection env (Some raw)"
proof -
  let ?text = "strip (str_lower env raw)"
  from assms(2) have n: "strip raw \<noteq> []" by (rule has_devanagari_nonblank)
  from assms have h: "has_devanagari ?text" by (simp add: keeps_devanagari_text)
  note t = text_detection_hindi [OF n h]
  have a: "text_detection env (Some raw) = Return (Err400 msg_text)"
    if "emotion_scores ?text = []"
    using that by (simp add: t)
  have b: "\<exists>label score. max_entry (emotion_scores ?text) = Inr (label, score)
               \<and> (label, score) \<in> set (emotion_scores ?text)
               \<and> (\<forall>x \<in> set (emotion_scores ?text). snd x \<le> score)
               \<and> text_detection env (Some raw)
                   = Continue (Some (u ''hi'')) (Some label) (min (real score / 5) 1)"
    if s: "emotion_scores ?text \<noteq> []"
  proof -
    from emotion_scores_max [OF s] obtain label score
      where m: "max_entry (emotion_scores ?text) = Inr (label, score)"
        "(label, score) \<in> set (emotion_scores ?text)"
        "\<forall>x \<in> set (emotion_scores ?text). snd x \<le> score" by auto
    have "text_detection env (Some raw)
            = Continue (Some (u ''hi'')) (Some label) (min (real score / 5) 1)"
      using s by (simp add: t keyword_signal_def m(1))
    with m show ?thesis by blast
  qed
  have c: "label \<in> fst ` set (emotion_scores ?text)"
    if "(label, kws) \<in> set emotion_keywords \<and> keyword \<in> set kws
          \<and> sublist keyword ?text" for label kws keyword
    using that unfolding emotion_scores_def by (auto intro: score_table_hit)
  have n': "strip raw \<noteq> []" by (rule n)
  have h': "has_devanagari (strip (str_lower (env\<lparr>te_get_emotion := classifier\<rparr>) raw))"
    using h by simp
  have d: "text_detection (env\<lparr>te_get_emotion := classifier\<rparr>) (Some raw)
           = text_detection env (Some raw)"
    unfolding t text_detection_hindi [OF n' h'] by simp
  from a b c d show ?thesis by blast
qed

text \<open>The text of three Devanagari letters and the word \<open>sad\<close>.\<close>

theorem C2_hindi_text_scored_on_merged_table_witness:
  "keeps_devanagari (str_lower (example_env te_silent)) \<and> has_devanagari mixed_text
   \<and> emotion_scores (strip (str_lower (example_env te_silent) mixed_text)) = [(u ''sad'', 1)]
   \<and> text_detection (example_env te_silent) (Some mixed_text)
       = Continue (Some (u ''hi'')) (Some (u ''sad'')) (min (real 1 / 5) 1)"
proof -
  have l: "str_lower (example_env te_silent) = ascii_lower" by (simp add: example_env_def)
  have h1: "keeps_devanagari (str_lower (example_env te_silent))"
    unfolding l by (rule keeps_devanagari_ascii_lower)
  have s: "emotion_scores (strip (str_lower (example_env te_silent) mixed_text)) = [(u ''sad'', 1)]"
    by (simp add: l mixed_text_stripped mixed_text_scores)
  note c = C2_hindi_text_scored_on_merged_table [OF h1 mixed_text_devanagari, of "\<lambda>_. Inr []"]
  from c [THEN conjunct2, THEN conjunct1] s
  have "\<exists>label score. max_entry [(u ''sad'', 1::nat)] = Inr (label, score)
          \<and> text_detection (example_env te_silent) (Some mixed_text)
              = Continue (Some (u ''hi'')) (Some label) (min (real score / 5) 1)"
    by auto
  then have "text_detection (example_env te_silent) (Some mixed_text)
       = Continue (Some (u ''hi'')) (Some (u ''sad'')) (min (real 1 / 5) 1)"
    by (auto simp: max_entry_def py_max_key_def getitem_def)
  with h1 mixed_text_devanagari s show ?thesis by (intro conjI)
qed

subsection \<open>Claim C3\<close>

text \<open>
  C3. A request with an image that shows an emotion and without text is not answered with
  200 and the method \<^verbatim>\<open>'facial'\<close>: \<^verbatim>\<open>language\<close> is assigned only in the text part, so
  the call of \<^verbatim>\<open>get_spotify_playlists(mood, language)\<close> raises.
\<close>

theorem C3_facial_only_raises:
  "facial_detection (example_env te_sad) (Some (u ''data:image/jpeg;base64,AAAA''))
     = (Some (u ''happy''), 9 / 10)
   \<and> detect_emotion (example_env te_sad)
       \<lparr>req_image = Some (u ''data:image/jpeg;base64,AAAA''), req_text = None\<rparr>
     = Err500 UnboundLocalError"
  by (simp add: detect_emotion_def example_facial text_detection_def respond_def combine_def
      truthy_def Let_def)

subsection \<open>Claim C4\<close>

text \<open>
  C4 as stated fails for a text that is not empty but blank: the text of one space has no
  Devanagari letter, yet no language is detected for it (\<^verbatim>\<open>language\<close> stays unbound),
  and the response is not a 200 response with the language \<^verbatim>\<open>'en'\<close>.
\<close>

theorem C4_blank_text_counterexample:
  "u '' '' \<noteq> [] \<and> \<not> has_devanagari (u '' '')
   \<and> text_detection (example_env te_sad) (Some (u '' '')) = Continue None None 0
   \<and> detect_emotion (example_env te_sad) \<lparr>req_image = None, req_text = Some (u '' '')\<rparr>
       = Err400 msg_none"
  by (simp add: has_devanagari_def u_def text_detection_def strip_def py_isspace_def
      detect_emotion_def facial_detection_def respond_def combine_def truthy_def)

text \<open>
  C4, as amended. For a request whose text is not empty after stripping whitespace, the
  language is \<^verbatim>\<open>'hi'\<close> when the text contains a code point from U+0900 to U+097F
  and \<^verbatim>\<open>'en'\<close> otherwise: this is the value of \<^verbatim>\<open>language\<close> whenever the text part
  goes on, and the language of every 200 response. The handler looks at the lower-cased
  text; lower-casing is assumed to keep the presence of Devanagari, as \<^verbatim>\<open>str.lower\<close> does.
\<close>

theorem C4_language_of_nonblank_text:
  assumes "keeps_devanagari (str_lower env)" and "strip raw \<noteq> []"
  shows "language_of (strip (str_lower env raw)) = (if has_devanagari raw then u ''hi'' else u ''en'')
       \<and> (\<forall>language te tc. text_detection env (Some raw) = Continue language te tc \<longrightarrow>
            language = Some (if has_devanagari raw then u ''hi'' else u ''en''))
       \<and> (\<forall>img p. detect_emotion env \<lparr>req_image = img, req_text = Some raw\<rparr> = Ok200 p \<longrightarrow>
            r_language p = (if has_devanagari raw then u ''hi'' else u ''en''))"
proof -
  let ?l = "if has_devanagari raw then u ''hi'' else u ''en''"
  have l: "language_of (strip (str_lower env raw)) = ?l"
    unfolding language_of_def keeps_devanagari_text [OF assms(1)] ..
  have t: "language = Some ?l" if "text_detection env (Some raw) = Continue language te tc"
    for language te tc
    using text_detection_language [OF assms(2) that] unfolding l .
  have d: "r_language p = ?l"
    if "detect_emotion env \<lparr>req_image = img, req_text = Some raw\<rparr> = Ok200 p" for img p
  proof -
    from detect_emotion_language [OF that] obtain te tc
      where "text_detection env (Some raw) = Continue (Some (r_language p)) te tc" by auto
    from t [OF this] show ?thesis by simp
  qed
  from l t d show ?thesis by blast
qed

text \<open>A text with three Devanagari letters gets \<^verbatim>\<open>'hi'\<close>.\<close>

theorem C4_language_of_nonblank_text_witness:
  "keeps_devanagari (str_lower (example_env te_silent)) \<and> strip mixed_text \<noteq> []
   \<and> has_devanagari mixed_text
   \<and> text_detection (example_env te_silent) (Some mixed_text)
       = Continue (Some (u ''hi'')) (Some (u ''sad'')) (1 / 5)
   \<and> language_of (strip (str_lower (example_env te_silent) mixed_text)) = u ''hi''"
proof -
  have l: "str_lower (example_env te_silent) = ascii_lower" by (simp add: example_env_def)
  have h1: "keeps_devanagari (str_lower (example_env te_silent))"
    unfolding l by (rule keeps_devanagari_ascii_lower)
  have h2: "strip mixed_text \<noteq> []"
    using mixed_text_devanagari by (rule has_devanagari_nonblank)
  note c = C4_language_of_nonblank_text [OF h1 h2]
  from c have "language_of (strip (str_lower (example_env te_silent) mixed_text)) = u ''hi''"
    by (simp add: mixed_text_devanagari)
  with h1 h2 mixed_text_devanagari mixed_text_detection [of te_silent]
  show ?thesis by (intro conjI)
qed

subsection \<open>Claim C5\<close>

text \<open>
  C5. For a text without Devanagari for which the classifier returns scores that are not
  all zero, let \<open>teLabel\<close> be the first label with the greatest score \<open>teScore\<close>. When no
  keyword occurs the text signal is \<open>(teLabel, teScore)\<close>. When a keyword occurs, with
  \<open>kwLabel\<close> the first label with the greatest keyword score \<open>kwScore\<close>, the text signal
  is \<open>(kwLabel, min (kwScore / 5) 1)\<close> if \<open>kwScore \<ge> 2\<close> or \<open>kwScore > 0\<close> and
  \<open>teScore < 0.3\<close>, and \<open>(teLabel, teScore)\<close> otherwise. The scores of the classifier
  are a dict, so their keys are distinct.
\<close>

theorem C5_english_text_signal:
  assumes "strip raw \<noteq> []" and "\<not> has_devanagari (strip (str_lower env raw))"
    and "te_get_emotion env raw = Inr text_emotions"
    and "distinct (map fst text_emotions)"
    and "list_ex (\<lambda>v. v \<noteq> 0) (map snd text_emotions)"
  shows "\<exists>teLabel teScore.
           max_entry text_emotions = Inr (teLabel, teScore)
           \<and> (teLabel, teScore) \<in> set text_emotions
           \<and> (\<forall>x \<in> set text_emotions. snd x \<le> teScore)
           \<and> (emotion_scores (strip (str_lower env raw)) = [] \<longrightarrow>
                text_detection env (Some raw) = Continue (Some (u ''en'')) (Some teLabel) teScore)
           \<and> (emotion_scores (strip (str_lower env raw)) \<noteq> [] \<longrightarrow>
                (\<exists>kwLabel kwScore.
                   max_entry (emotion_scores (strip (str_lower env raw))) = Inr (kwLabel, kwScore)
                   \<and> (kwLabel, kwScore) \<in> set (emotion_scores (strip (str_lower env raw)))
                   \<and> (\<forall>x \<in> set (emotion_scores (strip (str_lower env raw))). snd x \<le> kwScore)
                   \<and> text_detection env (Some raw) =
                       (if kwScore \<ge> 2 \<or> (kwScore > 0 \<and> teScore < 0.3)
                        then Continue (Some (u ''en'')) (Some kwLabel) (min (real kwScore / 5) 1)
                        else Continue (Some (u ''en'')) (Some teLabel) teScore)))"
proof -
  let ?scores = "emotion_scores (strip (str_lower env raw))"
  from assms(5) have "text_emotions \<noteq> []" by auto
  from max_entry_nonempty [OF this] obtain teLabel teScore
    where te: "max_entry text_emotions = Inr (teLabel, teScore)" by auto
  note tm = max_entry_max [OF assms(4) te]
  note t = text_detection_english [OF assms(1,2,3,5) te]
  have a: "text_detection env (Some raw) = Continue (Some (u ''en'')) (Some teLabel) teScore"
    if "?scores = []"
    using that by (simp add: t)
  have b: "\<exists>kwLabel kwScore.
             max_entry ?scores = Inr (kwLabel, kwScore)
             \<and> (kwLabel, kwScore) \<in> set ?scores
             \<and> (\<forall>x \<in> set ?scores. snd x \<le> kwScore)
             \<and> text_detection env (Some raw) =
                 (if kwScore \<ge> 2 \<or> (kwScore > 0 \<and> teScore < 0.3)
                  then Continue (Some (u ''en'')) (Some kwLabel) (min (real kwScore / 5) 1)
                  else Continue (Some (u ''en'')) (Some teLabel) teScore)"
    if s: "?scores \<noteq> []"
  proof -
    from emotion_scores_max [OF s] obtain kwLabel kwScore
      where m: "max_entry ?scores = Inr (kwLabel, kwScore)"
        "(kwLabel, kwScore) \<in> set ?scores" "\<forall>x \<in> set ?scores. snd x \<le> kwScore" by auto
    have "text_detection env (Some raw) =
                 (if kwScore \<ge> 2 \<or> (kwScore > 0 \<and> teScore < 0.3)
                  then Continue (Some (u ''en'')) (Some kwLabel) (min (real kwScore / 5) 1)
                  else Continue (Some (u ''en'')) (Some teLabel) teScore)"
      using s by (simp add: t m(1))
    with m show ?thesis by blast
  qed
  from te tm a b show ?thesis by blast
qed

text \<open>Two keywords of \<^verbatim>\<open>'happy'\<close> outweigh a classifier that is sure of \<^verbatim>\<open>'Sad'\<close>.\<close>

theorem C5_english_text_signal_witness:
  "strip (u ''So HAPPY and glad'') \<noteq> []
   \<and> \<not> has_devanagari (strip (str_lower (example_env te_sad) (u ''So HAPPY and glad'')))
   \<and> te_get_emotion (example_env te_sad) (u ''So HAPPY and glad'') = Inr te_sad
   \<and> distinct (map fst te_sad) \<and> list_ex (\<lambda>v. v \<noteq> 0) (map snd te_sad)
   \<and> max_entry te_sad = Inr (u ''Sad'', 1)
   \<and> max_entry (emotion_scores (strip (str_lower (example_env te_sad) (u ''So HAPPY and glad''))))
       = Inr (u ''happy'', 2)
   \<and> text_detection (example_env te_sad) (Some (u ''So HAPPY and glad''))
       = Continue (Some (u ''en'')) (Some (u ''happy'')) (2 / 5)"
proof -
  have l: "str_lower (example_env te_sad) = ascii_lower" by (simp add: example_env_def)
  have h1: "strip (u ''So HAPPY and glad'') \<noteq> []" by (rule glad_nonblank)
  have h2: "\<not> has_devanagari (strip (str_lower (example_env te_sad) (u ''So HAPPY and glad'')))"
    by (simp add: l glad_stripped glad_latin)
  have h3: "te_get_emotion (example_env te_sad) (u ''So HAPPY and glad'') = Inr te_sad"
    by (simp add: example_env_def)
  have h4: "distinct (map fst te_sad)" by (simp add: te_sad_def)
  have h5: "list_ex (\<lambda>v. v \<noteq> 0) (map snd te_sad)" by (simp add: te_sad_def)
  have m1: "max_entry te_sad = Inr (u ''Sad'', 1)"
    by (simp add: te_sad_def max_entry_def py_max_key_def getitem_def)
  have s: "emotion_scores (strip (str_lower (example_env te_sad) (u ''So HAPPY and glad'')))
             = [(u ''happy'', 2)]"
    by (simp add: l glad_stripped glad_scores)
  have m2: "max_entry (emotion_scores (strip (str_lower (example_env te_sad) (u ''So HAPPY and glad''))))
       = Inr (u ''happy'', 2)"
    by (simp add: s max_entry_def py_max_key_def getitem_def)
  from C5_english_text_signal [OF h1 h2 h3 h4 h5]
  have "text_detection (example_env te_sad) (Some (u ''So HAPPY and glad''))
       = Continue (Some (u ''en'')) (Some (u ''happy'')) (2 / 5)"
    by (auto simp: m1 m2 s)
  with h1 h2 h3 h4 h5 m1 m2 show ?thesis by (intro conjI)
qed

subsection \<open>Claim C6\<close>

text \<open>
  C6. The mood mapping is total: every label gets a mood of the mood vocabulary; the keys
  of the table are the labels of the emotion vocabulary, each with one mood; a label that
  is not in the table gets \<^verbatim>\<open>'chill'\<close>. The handler looks the label up after lower-casing
  it, so the lookup does not depend on the case of the label it was given: the mood of
  every 200 response is the mood of its lower-cased emotion.
\<close>

theorem C6_mood_mapping_total:
  "mood_of label \<in> set MoodVocabulary
   \<and> map fst emotion_to_mood = EmotionVocabulary
   \<and> distinct EmotionVocabulary
   \<and> map mood_of EmotionVocabulary =
       [u ''happy'', u ''sad'', u ''energetic'', u ''calm'', u ''excited'', u ''chill'', u ''dark'',
        u ''happy'', u ''excited'', u ''calm'', u ''happy'', u ''sad'', u ''calm'', u ''romantic'']
   \<and> (label \<notin> set EmotionVocabulary \<longrightarrow> mood_of label = u ''chill'')
   \<and> (detect_emotion env data = Ok200 p \<longrightarrow>
        (\<exists>emotion. r_emotion p = str_lower env emotion)
        \<and> r_mood p = mood_of (r_emotion p) \<and> r_mood p \<in> set MoodVocabulary)"
proof (intro conjI impI)
  show "mood_of label \<in> set MoodVocabulary" by (rule mood_of_in_vocabulary)
  show "map fst emotion_to_mood = EmotionVocabulary" by (rule emotion_keys)
  show "distinct EmotionVocabulary" by (simp add: EmotionVocabulary_def)
  show "map mood_of EmotionVocabulary =
       [u ''happy'', u ''sad'', u ''energetic'', u ''calm'', u ''excited'', u ''chill'', u ''dark'',
        u ''happy'', u ''excited'', u ''calm'', u ''happy'', u ''sad'', u ''calm'', u ''romantic'']"
    by (rule mood_of_known)
next
  assume "label \<notin> set EmotionVocabulary"
  then show "mood_of label = u ''chill''" by (rule mood_of_unknown)
next
  assume a: "detect_emotion env data = Ok200 p"
  from detect_emotion_Ok200 [OF a]
  show "\<exists>emotion. r_emotion p = str_lower env emotion" by blast
  from detect_emotion_Ok200 [OF a]
  show m: "r_mood p = mood_of (r_emotion p)" by blast
  show "r_mood p \<in> set MoodVocabulary" unfolding m by (rule mood_of_in_vocabulary)
qed

text \<open>
  The label \<^verbatim>\<open>'bored'\<close> is unknown, and the label \<^verbatim>\<open>'Sad'\<close> of the text classifier is
  found as \<^verbatim>\<open>'sad'\<close>.
\<close>

theorem C6_mood_mapping_total_witness:
  "u ''bored'' \<notin> set EmotionVocabulary \<and> mood_of (u ''bored'') = u ''chill''
   \<and> mood_of (ascii_lower (u ''Sad'')) = u ''sad''
   \<and> (\<exists>p. detect_emotion (example_env te_sad)
             \<lparr>req_image = None, req_text = Some (u ''I am SAD'')\<rparr> = Ok200 p
          \<and> r_emotion p = ascii_lower (u ''Sad'') \<and> r_mood p = u ''sad''
          \<and> r_mood p \<in> set MoodVocabulary)"
proof -
  have h: "u ''bored'' \<notin> set EmotionVocabulary" by (simp add: EmotionVocabulary_def)
  have f: "facial_detection (example_env te_sad) None = (None, 0)"
    by (simp add: facial_detection_def)
  have l: "str_lower (example_env te_sad) = ascii_lower" and s: "sp (example_env te_sad) = None"
    by (simp_all add: example_env_def)
  from example_playlists_sad obtain ps where
    ps: "get_spotify_playlists None (u ''sad'') (u ''en'') = Inr ps" by (elim exE conjE)
  have "\<exists>p. detect_emotion (example_env te_sad)
             \<lparr>req_image = None, req_text = Some (u ''I am SAD'')\<rparr> = Ok200 p
          \<and> r_emotion p = ascii_lower (u ''Sad'') \<and> r_mood p = u ''sad''"
    by (simp add: detect_emotion_def f example_text_sad respond_def combine_def
        truthy_def Let_def l s lower_Sad mood_of_sad ps)
  then obtain p where p: "detect_emotion (example_env te_sad)
             \<lparr>req_image = None, req_text = Some (u ''I am SAD'')\<rparr> = Ok200 p"
      "r_emotion p = ascii_lower (u ''Sad'')" "r_mood p = u ''sad''" by (elim exE conjE)
  note c = C6_mood_mapping_total [of "u ''bored''" "example_env te_sad"
      "\<lparr>req_image = None, req_text = Some (u ''I am SAD'')\<rparr>" p]
  note c' = c [THEN conjunct2, THEN conjunct2, THEN conjunct2, THEN conjunct2]
  have m1: "mood_of (u ''bored'') = u ''chill''"
    by (rule c' [THEN conjunct1, THEN mp, OF h])
  have m2: "r_mood p \<in> set MoodVocabulary"
    by (rule c' [THEN conjunct2, THEN mp, OF p(1), THEN conjunct2, THEN conjunct2])
  have m3: "mood_of (ascii_lower (u ''Sad'')) = u ''sad''" by (simp add: lower_Sad mood_of_sad)
  from h m1 m3 p m2 show ?thesis by (intro conjI exI [of _ p])
qed

subsection \<open>Claim C7\<close>

text \<open>
  C7. The handler answers 400 with an error message when neither part yields an emotion:
  for the body \<^verbatim>\<open>{}\<close>; for a text in which no keyword occurs when the classifier returns
  only zeros (with or without an image); and in general whenever the facial emotion is
  missing and the text part does not go on with an emotion.
\<close>

theorem C7_no_signal_is_400:
  "detect_emotion env \<lparr>req_image = None, req_text = None\<rparr> = Err400 msg_none
   \<and> (strip raw \<noteq> [] \<and> emotion_scores (strip (str_lower env raw)) = []
        \<and> te_get_emotion env raw = Inr text_emotions
        \<and> \<not> list_ex (\<lambda>v. v \<noteq> 0) (map snd text_emotions) \<longrightarrow>
        detect_emotion env \<lparr>req_image = img, req_text = Some raw\<rparr> = Err400 msg_text)
   \<and> (\<not> truthy (fst (facial_detection env (req_image data)))
        \<and> (\<forall>language te tc. text_detection env (req_text data) = Continue language te tc
              \<longrightarrow> \<not> truthy te) \<longrightarrow>
        detect_emotion env data = Err400 msg_text \<or> detect_emotion env data = Err400 msg_failed
        \<or> detect_emotion env data = Err400 msg_none)
   \<and> msg_text \<noteq> [] \<and> msg_failed \<noteq> [] \<and> msg_none \<noteq> []"
proof (intro conjI impI)
  show "detect_emotion env \<lparr>req_image = None, req_text = None\<rparr> = Err400 msg_none"
    by (rule no_request_data)
  show "msg_text \<noteq> []" by (simp add: msg_text_def)
  show "msg_failed \<noteq> []" by (simp add: msg_failed_def)
  show "msg_none \<noteq> []" by (simp add: msg_none_def)
next
  assume a: "strip raw \<noteq> [] \<and> emotion_scores (strip (str_lower env raw)) = []
        \<and> te_get_emotion env raw = Inr text_emotions
        \<and> \<not> list_ex (\<lambda>v. v \<noteq> 0) (map snd text_emotions)"
  then have "text_detection env (Some raw) = Return (Err400 msg_text)"
    by (intro text_detection_silent [of raw env text_emotions]) simp_all
  then show "detect_emotion env \<lparr>req_image = img, req_text = Some raw\<rparr> = Err400 msg_text"
    by (simp add: detect_emotion_def split: prod.splits)
next
  assume a: "\<not> truthy (fst (facial_detection env (req_image data)))
        \<and> (\<forall>language te tc. text_detection env (req_text data) = Continue language te tc
              \<longrightarrow> \<not> truthy te)"
  obtain fe fc where f: "facial_detection env (req_image data) = (fe, fc)"
    by (cases "facial_detection env (req_image data)")
  with a have nf: "\<not> truthy fe" by simp
  show "detect_emotion env data = Err400 msg_text \<or> detect_emotion env data = Err400 msg_failed
        \<or> detect_emotion env data = Err400 msg_none"
  proof (cases "text_detection env (req_text data)")
    case (Return r)
    with text_detection_cases [of env "req_text data"]
    have "r = Err400 msg_text \<or> r = Err400 msg_failed" by auto
    with Return f show ?thesis by (auto simp: detect_emotion_def)
  next
    case (Continue language te tc)
    with a have "\<not> truthy te" by blast
    with nf have "respond env fe fc language te tc = Err400 msg_none"
      by (rule respond_no_signal)
    with Continue f show ?thesis by (simp add: detect_emotion_def)
  qed
qed

text \<open>The text \<^verbatim>\<open>xyz\<close> with a classifier that returns only zeros.\<close>

theorem C7_no_signal_is_400_witness:
  "strip (u ''xyz'') \<noteq> []
   \<and> emotion_scores (strip (str_lower (example_env te_silent) (u ''xyz''))) = []
   \<and> te_get_emotion (example_env te_silent) (u ''xyz'') = Inr te_silent
   \<and> \<not> list_ex (\<lambda>v. v \<noteq> 0) (map snd te_silent)
   \<and> detect_emotion (example_env te_silent) \<lparr>req_image = None, req_text = Some (u ''xyz'')\<rparr>
       = Err400 msg_text
   \<and> \<not> truthy (fst (facial_detection (example_env te_silent) None))
   \<and> text_detection (example_env te_silent) (Some (u ''xyz'')) = Return (Err400 msg_text)
   \<and> (detect_emotion (example_env te_silent) \<lparr>req_image = None, req_text = Some (u ''xyz'')\<rparr>
         = Err400 msg_text
       \<or> detect_emotion (example_env te_silent) \<lparr>req_image = None, req_text = Some (u ''xyz'')\<rparr>
         = Err400 msg_failed
       \<or> detect_emotion (example_env te_silent) \<lparr>req_image = None, req_text = Some (u ''xyz'')\<rparr>
         = Err400 msg_none)
   \<and> detect_emotion (example_env te_silent) \<lparr>req_image = None, req_text = None\<rparr> = Err400 msg_none"
proof -
  have l: "str_lower (example_env te_silent) = ascii_lower" by (simp add: example_env_def)
  have h1: "strip (u ''xyz'') \<noteq> []" by (rule xyz_nonblank)
  have h2: "emotion_scores (strip (str_lower (example_env te_silent) (u ''xyz''))) = []"
    by (simp add: l xyz_scores)
  have h3: "te_get_emotion (example_env te_silent) (u ''xyz'') = Inr te_silent"
    by (simp add: example_env_def)
  have h4: "\<not> list_ex (\<lambda>v. v \<noteq> 0) (map snd te_silent)" by (simp add: te_silent_def)
  have h5: "\<not> truthy (fst (facial_detection (example_env te_silent) None))"
    by (simp add: facial_detection_def truthy_def)
  have t: "text_detection (example_env te_silent) (Some (u ''xyz'')) = Return (Err400 msg_text)"
    using h1 h2 h3 h4 by (rule text_detection_silent)
  have h6: "\<forall>language te tc.
      text_detection (example_env te_silent)
        (req_text \<lparr>req_image = None, req_text = Some (u ''xyz'')\<rparr>) = Continue language te tc
      \<longrightarrow> \<not> truthy te"
    by (simp add: t)
  note c = C7_no_signal_is_400 [of "example_env te_silent" "u ''xyz''" te_silent None
      "\<lparr>req_image = None, req_text = Some (u ''xyz'')\<rparr>"]
  from c have d0: "detect_emotion (example_env te_silent) \<lparr>req_image = None, req_text = None\<rparr>
      = Err400 msg_none" by (rule conjunct1)
  have d1: "detect_emotion (example_env te_silent)
      \<lparr>req_image = None, req_text = Some (u ''xyz'')\<rparr> = Err400 msg_text"
    by (rule c [THEN conjunct2, THEN conjunct1, THEN mp]) (intro conjI h1 h2 h3 h4)
  have h5': "\<not> truthy (fst (facial_detection (example_env te_silent)
      (req_image \<lparr>req_image = None, req_text = Some (u ''xyz'')\<rparr>)))"
    using h5 by simp
  have d2: "detect_emotion (example_env te_silent) \<lparr>req_image = None, req_text = Some (u ''xyz'')\<rparr>
         = Err400 msg_text
       \<or> detect_emotion (example_env te_silent) \<lparr>req_image = None, req_text = Some (u ''xyz'')\<rparr>
         = Err400 msg_failed
       \<or> detect_emotion (example_env te_silent) \<lparr>req_image = None, req_text = Some (u ''xyz'')\<rparr>
         = Err400 msg_none"
    by (rule c [THEN conjunct2, THEN conjunct2, THEN conjunct1, THEN mp]) (intro conjI h5' h6)
  from h1 h2 h3 h4 d1 h5 t d2 d0 show ?thesis by (intro conjI)
qed

subsection \<open>Claim C8\<close>

text \<open>
  C8 as stated, with the score as the count of the occurrences of the keywords, fails:
  in \<^verbatim>\<open>sad sad\<close> the keyword \<open>sad\<close> occurs twice and no other keyword of the label
  occurs, but the score of \<^verbatim>\<open>'sad'\<close> is 1.
\<close>

theorem C8_repeated_keyword_counterexample:
  "map_of (emotion_scores (u ''sad sad'')) (u ''sad'') = Some 1
   \<and> occurrences (u ''sad'') (u ''sad sad'') = 2
   \<and> occurrence_score (dict_get emotion_keywords (u ''sad'') []) (u ''sad sad'') = 2"
  by (simp add: emotion_scores_def score_table_def keyword_score_def emotion_keywords_def u_def
      occurrence_score_def dict_get_def)

text \<open>
  C8, as amended. The scores map a label to the number of its keywords that occur in the
  text as a contiguous run of code points (compared exactly, so case matters); a keyword
  that occurs several times counts once. Only labels with a positive score appear, in the
  order of the table, and the result is empty exactly when no keyword occurs. The function
  is total: it cannot fail.
\<close>

theorem C8_keyword_scores:
  "map_of (emotion_scores text) label =
     (case map_of emotion_keywords label of
        None \<Rightarrow> None
      | Some keywords \<Rightarrow>
          if \<exists>keyword \<in> set keywords. sublist keyword text
          then Some (card {keyword \<in> set keywords. sublist keyword text})
          else None)
   \<and> (\<forall>x \<in> set (emotion_scores text). snd x > 0)
   \<and> subseq (map fst (emotion_scores text)) (map fst emotion_keywords)
   \<and> (emotion_scores text = [] \<longleftrightarrow>
        (\<forall>entry \<in> set emotion_keywords. \<forall>keyword \<in> set (snd entry). \<not> sublist keyword text))"
proof (intro conjI)
  show "map_of (emotion_scores text) label =
     (case map_of emotion_keywords label of
        None \<Rightarrow> None
      | Some keywords \<Rightarrow>
          if \<exists>keyword \<in> set keywords. sublist keyword text
          then Some (card {keyword \<in> set keywords. sublist keyword text})
          else None)"
  proof (cases "map_of emotion_keywords label")
    case None
    then show ?thesis
      by (simp add: emotion_scores_def map_of_score_table [OF emotion_keywords_distinct])
  next
    case (Some kws)
    then have "(label, kws) \<in> set emotion_keywords" by (rule map_of_SomeD)
    with emotion_keywords_lists_distinct have "distinct kws"
      by (auto simp: list_all_iff)
    then have kc: "keyword_score kws text = card {keyword \<in> set kws. sublist keyword text}"
      by (rule keyword_score_card)
    have eq: "map_of (emotion_scores text) label =
        (if keyword_score kws text > 0 then Some (keyword_score kws text) else None)"
      by (simp add: emotion_scores_def map_of_score_table [OF emotion_keywords_distinct] Some)
    show ?thesis
    proof (cases "\<exists>keyword \<in> set kws. sublist keyword text")
      case True
      then have "keyword_score kws text > 0" by (simp add: keyword_score_pos)
      with True show ?thesis by (simp add: eq Some kc [symmetric])
    next
      case False
      then have "\<not> keyword_score kws text > 0" by (simp add: keyword_score_pos)
      with False show ?thesis by (simp add: eq Some)
    qed
  qed
  show "\<forall>x \<in> set (emotion_scores text). snd x > 0"
    unfolding emotion_scores_def using score_table_positive by blast
  show "subseq (map fst (emotion_scores text)) (map fst emotion_keywords)"
    unfolding emotion_scores_def by (rule score_table_subseq)
  show "emotion_scores text = [] \<longleftrightarrow>
        (\<forall>entry \<in> set emotion_keywords. \<forall>keyword \<in> set (snd entry). \<not> sublist keyword text)"
    unfolding emotion_scores_def by (rule score_table_empty_iff)
qed

text \<open>One keyword of \<^verbatim>\<open>'sad'\<close> occurs in \<^verbatim>\<open>sad sad\<close>, and none in \<^verbatim>\<open>xyz\<close>.\<close>

theorem C8_keyword_scores_witness:
  "map_of (emotion_scores (u ''sad sad'')) (u ''sad'') = Some 1
   \<and> card {keyword \<in> set (dict_get emotion_keywords (u ''sad'') []). sublist keyword (u ''sad sad'')} = 1
   \<and> emotion_scores (u ''sad sad'') = [(u ''sad'', 1)]
   \<and> emotion_scores (u ''xyz'') = []"
proof -
  have s: "emotion_scores (u ''sad sad'') = [(u ''sad'', 1)]"
    by (simp add: emotion_scores_def score_table_def keyword_score_def emotion_keywords_def u_def)
  have x: "emotion_scores (u ''xyz'') = []"
    by (simp add: emotion_scores_def score_table_def keyword_score_def emotion_keywords_def u_def)
  have m: "map_of (emotion_scores (u ''sad sad'')) (u ''sad'') = Some 1" by (simp add: s)
  note c = C8_keyword_scores [of "u ''sad sad''" "u ''sad''", THEN conjunct1]
  from c m sad_keywords
  have "card {keyword \<in> set (dict_get emotion_keywords (u ''sad'') []). sublist keyword (u ''sad sad'')} = 1"
    by (simp split: if_splits)
  with m s x show ?thesis by (intro conjI)
qed

subsection \<open>Claim C9\<close>

text \<open>
  C9. Without Spotify credentials, \<^verbatim>\<open>get_spotify_playlists('romantic', 'en')\<close> returns
  exactly three playlists, each with a name and a url that are not empty; and for a mood
  that is not a key of the table selected by the language (the Hindi table for \<^verbatim>\<open>'hi'\<close>,
  the English one otherwise), the list stored under \<^verbatim>\<open>'chill'\<close> in that table is returned.
\<close>

theorem C9_static_playlists:
  "(\<exists>p1 p2 p3. get_spotify_playlists None (u ''romantic'') (u ''en'') = Inr [p1, p2, p3]
      \<and> list_all (\<lambda>p. pl_name p \<noteq> [] \<and> pl_url p \<noteq> []) [p1, p2, p3])
   \<and> (language \<noteq> u ''hi'' \<and> mood \<notin> fst ` set sample_playlists \<longrightarrow>
        (\<exists>chill. map_of sample_playlists (u ''chill'') = Some chill
           \<and> get_spotify_playlists None mood language = Inr chill))
   \<and> (language = u ''hi'' \<and> mood \<notin> fst ` set sample_playlists_hi \<longrightarrow>
        (\<exists>chill. map_of sample_playlists_hi (u ''chill'') = Some chill
           \<and> get_spotify_playlists None mood language = Inr chill))"
proof (intro conjI impI)
  show "\<exists>p1 p2 p3. get_spotify_playlists None (u ''romantic'') (u ''en'') = Inr [p1, p2, p3]
      \<and> list_all (\<lambda>p. pl_name p \<noteq> [] \<and> pl_url p \<noteq> []) [p1, p2, p3]"
    by (simp add: get_spotify_playlists_def get_or_chill_def getitem_def dict_get_def
        sample_playlists_def)
next
  assume a: "language \<noteq> u ''hi'' \<and> mood \<notin> fst ` set sample_playlists"
  from chill_en obtain ps where ps: "getitem sample_playlists (u ''chill'') = Inr ps"
    "map_of sample_playlists (u ''chill'') = Some ps" by blast
  from a have "get_spotify_playlists None mood language = Inr ps"
    by (simp add: get_spotify_playlists_def get_or_chill_def ps dict_get_absent)
  with ps show "\<exists>chill. map_of sample_playlists (u ''chill'') = Some chill
           \<and> get_spotify_playlists None mood language = Inr chill" by blast
next
  assume a: "language = u ''hi'' \<and> mood \<notin> fst ` set sample_playlists_hi"
  from chill_hi obtain ps where ps: "getitem sample_playlists_hi (u ''chill'') = Inr ps"
    "map_of sample_playlists_hi (u ''chill'') = Some ps" by blast
  from a have "get_spotify_playlists None mood language = Inr ps"
    by (simp add: get_spotify_playlists_def get_or_chill_def ps dict_get_absent)
  with ps show "\<exists>chill. map_of sample_playlists_hi (u ''chill'') = Some chill
           \<and> get_spotify_playlists None mood language = Inr chill" by blast
qed

text \<open>
  The Hindi table has no entry for \<^verbatim>\<open>'romantic'\<close>, and the English table none for
  \<^verbatim>\<open>'party'\<close>: both get the chill lists.
\<close>

theorem C9_static_playlists_witness:
  "u ''hi'' = u ''hi'' \<and> u ''romantic'' \<notin> fst ` set sample_playlists_hi
   \<and> (\<exists>ps. get_spotify_playlists None (u ''romantic'') (u ''hi'') = Inr ps
         \<and> map pl_name ps = [u ''Bollywood Mellow'', u ''Indie Hindi Chill'', u ''Romantic Bollywood''])
   \<and> u ''en'' \<noteq> u ''hi'' \<and> u ''party'' \<notin> fst ` set sample_playlists
   \<and> (\<exists>ps. get_spotify_playlists None (u ''party'') (u ''en'') = Inr ps
         \<and> map pl_name ps = [u ''Chill Hits'', u ''Lofi Beats'', u ''Chill Vibes''])"
proof -
  have h1: "u ''romantic'' \<notin> fst ` set sample_playlists_hi"
    by (simp add: sample_playlists_hi_def)
  have h2: "u ''party'' \<notin> fst ` set sample_playlists"
    by (simp add: sample_playlists_def)
  have h3: "u ''en'' \<noteq> u ''hi''" by simp
  from C9_static_playlists [of "u ''hi''" "u ''romantic''"] h1 chill_hi
  have r1: "\<exists>ps. get_spotify_playlists None (u ''romantic'') (u ''hi'') = Inr ps
         \<and> map pl_name ps = [u ''Bollywood Mellow'', u ''Indie Hindi Chill'', u ''Romantic Bollywood'']"
    by auto
  from C9_static_playlists [of "u ''en''" "u ''party''"] h2 h3 chill_en
  have r2: "\<exists>ps. get_spotify_playlists None (u ''party'') (u ''en'') = Inr ps
         \<and> map pl_name ps = [u ''Chill Hits'', u ''Lofi Beats'', u ''Chill Vibes'']"
    by auto
  from h1 h2 h3 r1 r2 show ?thesis by simp
qed

subsection \<open>Claim C10\<close>

text \<open>
  C10. A request whose text consists of whitespace only is handled as a request without
  text: the text part does nothing (it consults neither the classifier nor the keywords
  and leaves \<^verbatim>\<open>language\<close> unbound), the response is the one of the same request
  without the text field, and it is the 400 response when there is no facial signal.
\<close>

theorem C10_blank_text_is_no_text:
  assumes "list_all py_isspace ws"
  shows "text_detection env (Some ws) = Continue None None 0
         \<and> text_detection env (Some ws) = text_detection env None
         \<and> detect_emotion env \<lparr>req_image = img, req_text = Some ws\<rparr>
             = detect_emotion env \<lparr>req_image = img, req_text = None\<rparr>
         \<and> (\<not> truthy (fst (facial_detection env img)) \<longrightarrow>
              detect_emotion env \<lparr>req_image = img, req_text = Some ws\<rparr> = Err400 msg_none)"
proof -
  from assms have s: "strip ws = []" by (rule strip_blank)
  have t: "text_detection env (Some ws) = Continue None None 0"
    by (simp add: text_detection_def s)
  have n: "text_detection env None = Continue None None 0"
    by (simp add: text_detection_def)
  have d: "detect_emotion env \<lparr>req_image = img, req_text = Some ws\<rparr>
             = detect_emotion env \<lparr>req_image = img, req_text = None\<rparr>"
    by (simp add: detect_emotion_def t n)
  have e: "detect_emotion env \<lparr>req_image = img, req_text = Some ws\<rparr> = Err400 msg_none"
    if "\<not> truthy (fst (facial_detection env img))"
    using that
    by (cases "facial_detection env img")
       (simp add: detect_emotion_def t respond_def combine_def truthy_def)
  from t n d e show ?thesis by simp
qed

text \<open>A space, a tab and a line feed, without an image.\<close>

theorem C10_blank_text_is_no_text_witness:
  "list_all py_isspace [0x20, 0x09, 0x0A]
   \<and> text_detection (example_env te_sad) (Some [0x20, 0x09, 0x0A]) = Continue None None 0
   \<and> \<not> truthy (fst (facial_detection (example_env te_sad) None))
   \<and> detect_emotion (example_env te_sad) \<lparr>req_image = None, req_text = Some [0x20, 0x09, 0x0A]\<rparr>
       = Err400 msg_none
   \<and> detect_emotion (example_env te_sad) \<lparr>req_image = None, req_text = None\<rparr> = Err400 msg_none"
proof -
  have h: "list_all py_isspace [0x20, 0x09, 0x0A]" by (simp add: py_isspace_def)
  have f: "\<not> truthy (fst (facial_detection (example_env te_sad) None))"
    by (simp add: facial_detection_def truthy_def)
  note c = C10_blank_text_is_no_text [OF h, of "example_env te_sad" None]
  from c have t: "text_detection (example_env te_sad) (Some [0x20, 0x09, 0x0A]) = Continue None None 0"
    by (elim conjE)
  from c f have d: "detect_emotion (example_env te_sad)
      \<lparr>req_image = None, req_text = Some [0x20, 0x09, 0x0A]\<rparr> = Err400 msg_none"
    by (elim conjE impE)
  from c have e: "detect_emotion (example_env te_sad)
      \<lparr>req_image = None, req_text = Some [0x20, 0x09, 0x0A]\<rparr>
      = detect_emotion (example_env te_sad) \<lparr>req_image = None, req_text = None\<rparr>"
    by (elim conjE)
  have n: "detect_emotion (example_env te_sad) \<lparr>req_image = None, req_text = None\<rparr>
      = Err400 msg_none" by (rule trans [OF e [symmetric] d])
  from h t f d n show ?thesis by (intro conjI)
qed

end
